theory Spec2Isabelle
  imports Main "HOL-Library.Sublist" "HOL-Library.Multiset"
begin

section \<open>Strings and values of the host language\<close>

text \<open>
  Strings are lists of ASCII characters. The operations below are the string methods of
  the host language that the plugin calls, restricted to ASCII text: \<open>trim\<close> strips the
  ASCII white space characters, the case conversions change the letters a-z and A-Z only.
\<close>

definition isSpace :: "char \<Rightarrow> bool" where
  "isSpace c = (c \<in> set [CHR 0x09, CHR 0x0A, CHR 0x0B, CHR 0x0C, CHR 0x0D, CHR '' ''])"

definition trim :: "string \<Rightarrow> string" where
  "trim s = rev (dropWhile isSpace (rev (dropWhile isSpace s)))"

fun startsWith :: "string \<Rightarrow> string \<Rightarrow> bool" where
  "startsWith s [] = True"
| "startsWith [] (c # p) = False"
| "startsWith (x # s) (c # p) = (x = c \<and> startsWith s p)"

definition lowerLetters :: string where
  "lowerLetters = ''abcdefghijklmnopqrstuvwxyz''"

definition upperLetters :: string where
  "upperLetters = ''ABCDEFGHIJKLMNOPQRSTUVWXYZ''"

definition toUpperChar :: "char \<Rightarrow> char" where
  "toUpperChar c = (case map_of (zip lowerLetters upperLetters) c of Some u \<Rightarrow> u | None \<Rightarrow> c)"

definition toLowerChar :: "char \<Rightarrow> char" where
  "toLowerChar c = (case map_of (zip upperLetters lowerLetters) c of Some l \<Rightarrow> l | None \<Rightarrow> c)"

definition toUpperCase :: "string \<Rightarrow> string" where
  "toUpperCase s = map toUpperChar s"

definition toLowerCase :: "string \<Rightarrow> string" where
  "toLowerCase s = map toLowerChar s"

text \<open>\<open>s.lastIndexOf(c)\<close>: the last position of \<open>c\<close>, or \<open>-1\<close>.\<close>

definition lastIndexOf :: "string \<Rightarrow> char \<Rightarrow> int" where
  "lastIndexOf s c =
     (case filter (\<lambda>i. s ! i = c) (rev [0..<length s]) of [] \<Rightarrow> - 1 | i # _ \<Rightarrow> int i)"

text \<open>\<open>s.substring(i)\<close>: a negative start counts as 0, a start beyond the end gives the
  empty string.\<close>

definition substring :: "string \<Rightarrow> int \<Rightarrow> string" where
  "substring s i = drop (nat i) s"

text \<open>\<open>s.includes(t)\<close>: \<open>t\<close> occurs in \<open>s\<close> at some position.\<close>

definition includes_str :: "string \<Rightarrow> string \<Rightarrow> bool" where
  "includes_str s t = list_ex (\<lambda>k. startsWith (drop k s) t) [0..<Suc (length s)]"

fun join :: "string \<Rightarrow> string list \<Rightarrow> string" where
  "join sep [] = []"
| "join sep [x] = x"
| "join sep (x # y # ys) = x @ sep @ join sep (y # ys)"

definition digitChar :: "nat \<Rightarrow> char" where
  "digitChar d = ''0123456789'' ! d"

fun digits :: "nat \<Rightarrow> string" where
  "digits n = (if n < 10 then [digitChar n] else digits (n div 10) @ [digitChar (n mod 10)])"

declare digits.simps [simp del]

text \<open>
  A frontmatter value: null, a boolean, a number, a string or a sequence of strings.
  Numbers are the integers that the host language prints in plain decimal notation.
\<close>

datatype fvalue = FNull | FBool bool | FNum int | FStr string | FArr "string list"

text \<open>\<open>String(v)\<close>.\<close>

fun String_of :: "fvalue \<Rightarrow> string" where
  "String_of FNull = ''null''"
| "String_of (FBool b) = (if b then ''true'' else ''false'')"
| "String_of (FNum n) = (if n < 0 then CHR ''-'' # digits (nat (- n)) else digits (nat n))"
| "String_of (FStr s) = s"
| "String_of (FArr xs) = join '','' xs"

text \<open>The truth value of \<open>v\<close> in a condition: null, false, 0 and the empty string are
  falsy, every array is truthy.\<close>

fun truthy :: "fvalue \<Rightarrow> bool" where
  "truthy FNull = False"
| "truthy (FBool b) = b"
| "truthy (FNum n) = (n \<noteq> 0)"
| "truthy (FStr s) = (s \<noteq> [])"
| "truthy (FArr xs) = True"

text \<open>The truth value of a variable of type \<open>string | undefined\<close>.\<close>

fun truthyStr :: "string option \<Rightarrow> bool" where
  "truthyStr None = False"
| "truthyStr (Some s) = (s \<noteq> [])"

definition hexDigits :: string where
  "hexDigits = ''0123456789ABCDEFabcdef''"

definition isHexDigit :: "char \<Rightarrow> bool" where
  "isHexDigit c = (c \<in> set hexDigits)"

text \<open>The patterns \<open>/^[0-9A-Fa-f]{n}$/\<close>, \<open>/^#[0-9A-Fa-f]{6}$/\<close> and
  \<open>/^#?[0-9A-Fa-f]{6}$/\<close>.\<close>

definition hexN :: "nat \<Rightarrow> string \<Rightarrow> bool" where
  "hexN n s = (length s = n \<and> list_all isHexDigit s)"

definition hashHex6 :: "string \<Rightarrow> bool" where
  "hashHex6 s = (case s of [] \<Rightarrow> False | c # r \<Rightarrow> c = CHR ''#'' \<and> hexN 6 r)"

definition hexPattern :: "string \<Rightarrow> bool" where
  "hexPattern s = (hashHex6 s \<or> hexN 6 s)"

section \<open>Settings (settings.ts)\<close>

record paletteColor =
  color_id :: string
  color_name :: string
  color_value :: string

record fileColor =
  path :: string
  color :: string

datatype conditionType = Regex | Property

datatype propertyOperator = Equals | Contains | Exists

record condition =
  cond_id :: string
  cond_type :: conditionType
  pattern :: string
  matchFullPath :: bool
  propertyName :: string
  propertyValue :: string
  propertyOperator :: propertyOperator

record group =
  group_id :: string
  group_name :: string
  colorId :: string
  usePropertyAsColor :: bool
  propertyNameForColor :: string
  enabled :: bool
  priority :: int
  conditions :: "condition list"

record settings =
  cascadeColors :: bool
  colorBackground :: bool
  folderNotesCompatibility :: bool
  palette :: "paletteColor list"
  fileColors :: "fileColor list"
  groups :: "group list"

section \<open>The host application\<close>

text \<open>
  The vault and the metadata cache are given by the host. \<open>getAbstractFileByPath\<close> finds
  the item at a path: a file with its extension, a folder, or nothing. \<open>frontmatter\<close> is
  \<open>getFileCache(file)?.frontmatter\<close>; the frontmatter is read by key, an undefined
  property being \<open>None\<close>.
\<close>

datatype afile = TFile string | TFolder

record env =
  getAbstractFileByPath :: "string \<Rightarrow> afile option"
  frontmatter :: "string \<Rightarrow> (string \<Rightarrow> fvalue option) option"

text \<open>
  The regular expression engine is a parameter: \<open>rx pat\<close> is \<open>new RegExp(pat)\<close>, \<open>None\<close>
  when the constructor throws, otherwise the \<open>test\<close> function of the expression.
\<close>

type_synonym regexp = "string \<Rightarrow> (string \<Rightarrow> bool) option"

section \<open>The plugin (FileColorPlugin.ts)\<close>

text \<open>The \<open>delete\<close> handler of \<open>onload\<close>.\<close>

definition onDelete :: "settings \<Rightarrow> string \<Rightarrow> settings" where
  "onDelete s filePath =
     s\<lparr>fileColors := filter (\<lambda>fileColor. \<not> startsWith (path fileColor) filePath) (fileColors s)\<rparr>"

text \<open>\<open>generateColorStyles\<close>: one rule per palette colour, as the pair of the class it
  selects and the value it gives to \<open>--file-color-color\<close>.\<close>

definition generateColorStyles :: "settings \<Rightarrow> (string \<times> string) list" where
  "generateColorStyles s =
     map (\<lambda>c. (''file-color-color-'' @ color_id c, color_value c)) (palette s)"

definition evaluateCondition :: "env \<Rightarrow> regexp \<Rightarrow> string \<Rightarrow> condition \<Rightarrow> bool" where
  "evaluateCondition e rx p c =
     (if cond_type c = Regex then
        (case rx (pattern c) of
           None \<Rightarrow> False
         | Some test \<Rightarrow>
             test (if matchFullPath c then p else substring p (lastIndexOf p CHR ''/'' + 1)))
      else if cond_type c = Property then
        (case getAbstractFileByPath e p of
           None \<Rightarrow> False
         | Some TFolder \<Rightarrow> False
         | Some (TFile extension) \<Rightarrow>
             if extension \<noteq> ''md'' then False
             else
               (case frontmatter e p of
                  None \<Rightarrow> False
                | Some fm \<Rightarrow>
                    (case fm (propertyName c) of
                       None \<Rightarrow> False
                     | Some propValue \<Rightarrow>
                         (case propertyOperator c of
                            Exists \<Rightarrow> True
                          | Equals \<Rightarrow> String_of propValue = propertyValue c
                          | Contains \<Rightarrow>
                              (case propValue of
                                 FArr vs \<Rightarrow> list_ex (\<lambda>v. v = propertyValue c) vs
                               | _ \<Rightarrow> includes_str (String_of propValue) (propertyValue c))))))
      else False)"

text \<open>
  The colour read from a property (the branch \<open>group.usePropertyAsColor\<close> of
  \<open>applyColorStylesInternal\<close>): \<open>None\<close> when the branch assigns nothing to \<open>colorValue\<close>.
\<close>

definition propertyColor :: "env \<Rightarrow> string \<Rightarrow> string \<Rightarrow> string option" where
  "propertyColor e p prop =
     (case getAbstractFileByPath e p of
        None \<Rightarrow> None
      | Some TFolder \<Rightarrow> None
      | Some (TFile extension) \<Rightarrow>
          if extension \<noteq> ''md'' then None
          else
            (case frontmatter e p of
               None \<Rightarrow> None
             | Some fm \<Rightarrow>
                 (case fm prop of
                    None \<Rightarrow> None
                  | Some v \<Rightarrow>
                      if \<not> truthy v then None
                      else
                        (let colorStr = trim (String_of v)
                         in if hexPattern colorStr
                            then Some (if startsWith colorStr ''#'' then colorStr
                                       else CHR ''#'' # colorStr)
                            else None))))"

text \<open>
  \<open>enabledGroups\<close>: the enabled groups sorted with the comparator
  \<open>b.priority - a.priority\<close>. The sort of the host language is stable, as is \<open>sort_key\<close>.
\<close>

definition sortByPriority :: "group list \<Rightarrow> group list" where
  "sortByPriority gs = sort_key (\<lambda>g. - priority g) gs"

definition enabledGroups :: "settings \<Rightarrow> group list" where
  "enabledGroups s = sortByPriority (filter enabled (groups s))"

text \<open>
  The loop over \<open>enabledGroups\<close>, with the variables \<open>colorValue\<close> and \<open>isHexColor\<close> as
  its state. A group without conditions is skipped; a group whose conditions all hold
  assigns its colour; the loop stops once \<open>colorValue\<close> is truthy.
\<close>

fun groupLoop ::
  "env \<Rightarrow> regexp \<Rightarrow> string \<Rightarrow> group list \<Rightarrow> string option \<times> bool \<Rightarrow> string option \<times> bool"
where
  "groupLoop e rx p [] st = st"
| "groupLoop e rx p (g # gs) (colorValue, isHexColor) =
     (if conditions g = [] then groupLoop e rx p gs (colorValue, isHexColor)
      else
        let conditionsResults = map (evaluateCondition e rx p) (conditions g);
            allConditionsMatch = list_all (\<lambda>result. result = True) conditionsResults
        in if allConditionsMatch then
             (let st' =
                (if usePropertyAsColor g then
                   (case propertyColor e p (propertyNameForColor g) of
                      Some c \<Rightarrow> (Some c, True)
                    | None \<Rightarrow> (colorValue, isHexColor))
                 else (Some (colorId g), isHexColor))
              in if truthyStr (fst st') then st' else groupLoop e rx p gs st')
           else groupLoop e rx p gs (colorValue, isHexColor))"

text \<open>Steps 1 and 2 of \<open>applyColorStylesInternal\<close> for one path: the final values of
  \<open>colorValue\<close> and \<open>isHexColor\<close>.\<close>

definition manualFile :: "settings \<Rightarrow> string \<Rightarrow> fileColor option" where
  "manualFile s p = List.find (\<lambda>file. path file = p) (fileColors s)"

definition resolveColor :: "env \<Rightarrow> regexp \<Rightarrow> settings \<Rightarrow> string \<Rightarrow> string option \<times> bool" where
  "resolveColor e rx s p =
     (let colorValue = map_option color (manualFile s p)
      in if \<not> truthyStr colorValue
         then groupLoop e rx p (enabledGroups s) (colorValue, False)
         else (colorValue, False))"

text \<open>
  Step 3: the item of the file explorer gets its classes and its inline colour. The item
  is its class list and the inline value of \<open>--file-color-color\<close>. (The folder of a
  folder note is styled by a second step that is not part of this development.)
\<close>

record fileItem =
  classList :: "string list"
  styleColor :: "string option"

definition applyColor :: "settings \<Rightarrow> string option \<times> bool \<Rightarrow> fileItem \<Rightarrow> fileItem" where
  "applyColor s st item =
     (let cssType = (if colorBackground s then ''background'' else ''text'');
          itemClasses = filter (\<lambda>cls. \<not> startsWith cls ''file-color'') (classList item)
      in case st of
           (Some colorValue, isHexColor) \<Rightarrow>
             if colorValue \<noteq> [] then
               \<lparr>classList =
                  itemClasses @ [''file-color-file'']
                  @ (if isHexColor then [] else [''file-color-color-'' @ colorValue])
                  @ [''file-color-type-'' @ cssType]
                  @ (if cascadeColors s then [''file-color-cascade''] else []),
                styleColor = (if isHexColor then Some colorValue else styleColor item)\<rparr>
             else \<lparr>classList = itemClasses, styleColor = None\<rparr>
         | (None, isHexColor) \<Rightarrow> \<lparr>classList = itemClasses, styleColor = None\<rparr>)"

definition applyColorStyles :: "env \<Rightarrow> regexp \<Rightarrow> settings \<Rightarrow> string \<Rightarrow> fileItem \<Rightarrow> fileItem" where
  "applyColorStyles e rx s p item = applyColor s (resolveColor e rx s p) item"

text \<open>The styling decision that the final values of the two variables stand for.\<close>

datatype resolved = NoColor | PaletteRef string | LiteralHex string

fun outcome :: "string option \<times> bool \<Rightarrow> resolved" where
  "outcome (None, h) = NoColor"
| "outcome (Some c, h) = (if c = [] then NoColor else if h then LiteralHex c else PaletteRef c)"

section \<open>The settings panel (SettingsPanel/index.tsx)\<close>

datatype exn = TypeError

definition validateAndNormalizeHex :: "string \<Rightarrow> string option" where
  "validateAndNormalizeHex hex0 =
     (let hex1 = trim hex0;
          hex = (if startsWith hex1 ''#'' then substring hex1 1 else hex1)
      in if hexN 6 hex then Some (CHR ''#'' # toUpperCase hex)
         else if hexN 3 hex then Some (CHR ''#'' # toUpperCase (concat (map (\<lambda>c. [c, c]) hex)))
         else None)"

record colorError =
  colorIds :: "string list"
  message :: string
  errorType :: string

text \<open>Validation 1 of \<open>onSave\<close>: one error for each colour whose trimmed value is not
  \<open>#\<close> and six hexadecimal digits.\<close>

definition hexErrors :: "paletteColor list \<Rightarrow> colorError list" where
  "hexErrors pal =
     concat (map (\<lambda>c. let hex = trim (color_value c)
                      in if \<not> hashHex6 hex
                         then [\<lparr>colorIds = [color_id c],
                                message = ''Invalid hex color: '' @ hex,
                                errorType = ''invalid-hex''\<rparr>]
                         else []) pal)"

text \<open>
  Validation 2 collects the colours by name in \<open>nameToColors\<close>, an object created as
  \<open>{}\<close>: its own properties, in the order of their creation, over the properties that every
  object inherits. Reading \<open>nameToColors[name]\<close> finds an own property, else an inherited
  one, else nothing. An inherited property is truthy and has no \<open>push\<close>, so that the call
  of \<open>push\<close> on it throws.
\<close>

type_synonym nameTable = "(string \<times> paletteColor list) list"

definition objectPrototypeKeys :: "string list" where
  "objectPrototypeKeys =
     [''constructor'', ''__defineGetter__'', ''__defineSetter__'', ''hasOwnProperty'',
      ''__lookupGetter__'', ''__lookupSetter__'', ''isPrototypeOf'', ''propertyIsEnumerable'',
      ''toString'', ''valueOf'', ''__proto__'', ''toLocaleString'']"

fun addNames :: "paletteColor list \<Rightarrow> nameTable \<Rightarrow> exn + nameTable" where
  "addNames [] t = Inr t"
| "addNames (c # cs) t =
     (let name = toLowerCase (trim (color_name c))
      in if name = [] then addNames cs t
         else
           (case map_of t name of
              Some colors \<Rightarrow>
                addNames cs (map (\<lambda>(k, v). if k = name then (k, v @ [c]) else (k, v)) t)
            | None \<Rightarrow>
                if name \<in> set objectPrototypeKeys then Inl TypeError
                else addNames cs (t @ [(name, [c])])))"

text \<open>\<open>Object.entries\<close>: the keys that are array indices first, in ascending order, then
  the other keys in the order of their creation.\<close>

definition decimalValue :: "string \<Rightarrow> nat" where
  "decimalValue k = foldl (\<lambda>n c. 10 * n + (of_char c - of_char CHR ''0'')) 0 k"

definition isArrayIndex :: "string \<Rightarrow> bool" where
  "isArrayIndex k =
     (case k of
        [] \<Rightarrow> False
      | d # ds \<Rightarrow>
          list_all (\<lambda>c. c \<in> set ''0123456789'') k \<and> (ds = [] \<or> d \<noteq> CHR ''0'')
          \<and> decimalValue k < 2 ^ 32 - 1)"

definition entries :: "nameTable \<Rightarrow> nameTable" where
  "entries t =
     sort_key (\<lambda>kv. decimalValue (fst kv)) (filter (\<lambda>kv. isArrayIndex (fst kv)) t)
     @ filter (\<lambda>kv. \<not> isArrayIndex (fst kv)) t"

definition dupErrors :: "nameTable \<Rightarrow> colorError list" where
  "dupErrors t =
     concat (map (\<lambda>(name, colors).
                    case colors of
                      c0 # c1 # rest \<Rightarrow>
                        [\<lparr>colorIds = map color_id colors,
                          message = ''Duplicate color name '' @ [CHR 0x22] @ trim (color_name c0)
                                    @ [CHR 0x22] @ '' ('' @ digits (length colors) @ '' colors)'',
                          errorType = ''duplicate-name''\<rparr>]
                    | _ \<Rightarrow> []) (entries t))"

text \<open>
  The state of the panel that \<open>onSave\<close> reads and writes: the settings of the plugin, the
  palette being edited, the queue of errors and the error on display. \<open>Inl\<close> is an
  exception that leaves the handler.
\<close>

record panel =
  plugin_settings :: settings
  palette_state :: "paletteColor list"
  colorErrorQueue :: "colorError list"
  activeError :: "colorError option"
  changed :: bool

definition onSave :: "panel \<Rightarrow> exn + panel" where
  "onSave st =
     (let pal = palette_state st;
          errors1 = hexErrors pal
      in case addNames pal [] of
           Inl ex \<Rightarrow> Inl ex
         | Inr nameToColors \<Rightarrow>
             (case errors1 @ dupErrors nameToColors of
                err # errs \<Rightarrow>
                  Inr (st\<lparr>colorErrorQueue := err # errs, activeError := Some err\<rparr>)
              | [] \<Rightarrow>
                  Inr (st\<lparr>colorErrorQueue := [], activeError := None,
                          plugin_settings :=
                            (plugin_settings st)
                              \<lparr>palette := pal,
                               fileColors :=
                                 filter (\<lambda>fileColor.
                                           List.find (\<lambda>c. color fileColor = color_id c) pal \<noteq> None)
                                   (fileColors (plugin_settings st))\<rparr>,
                          changed := False\<rparr>)))"

text \<open>\<open>findIndex\<close>: the first position whose element satisfies the predicate, or \<open>-1\<close>.\<close>

definition findIndex :: "('a \<Rightarrow> bool) \<Rightarrow> 'a list \<Rightarrow> int" where
  "findIndex P xs =
     (case filter (\<lambda>i. P (xs ! i)) [0..<length xs] of [] \<Rightarrow> - 1 | i # _ \<Rightarrow> int i)"

text \<open>The two reordering handlers, as functions from the list of groups to the list that
  is stored. \<open>onGroupMoveUp\<close> reads positions \<open>index\<close> and \<open>index - 1\<close> only when
  \<open>index > 0\<close>; \<open>onGroupMoveDown\<close> reads position \<open>-1\<close> when the group is not found in a
  list that is not empty, and reading a field of the undefined element throws.\<close>

definition onGroupMoveUp :: "group list \<Rightarrow> string \<Rightarrow> group list" where
  "onGroupMoveUp gs groupId =
     (let sortedGroups = sortByPriority gs;
          index = findIndex (\<lambda>g. group_id g = groupId) sortedGroups
      in if index > 0 then
           (let currentPriority = priority (sortedGroups ! nat index);
                higherPriority = priority (sortedGroups ! nat (index - 1))
            in map (\<lambda>group.
                      if group_id group = groupId then group\<lparr>priority := higherPriority + 1\<rparr>
                      else if group_id group = group_id (sortedGroups ! nat (index - 1))
                      then group\<lparr>priority := currentPriority\<rparr>
                      else group) gs)
         else gs)"

definition onGroupMoveDown :: "group list \<Rightarrow> string \<Rightarrow> exn + group list" where
  "onGroupMoveDown gs groupId =
     (let sortedGroups = sortByPriority gs;
          index = findIndex (\<lambda>g. group_id g = groupId) sortedGroups
      in if index < int (length sortedGroups) - 1 then
           (if index < 0 then Inl TypeError
            else
              (let currentPriority = priority (sortedGroups ! nat index);
                   lowerPriority = priority (sortedGroups ! nat (index + 1))
               in Inr (map (\<lambda>group.
                         if group_id group = groupId then group\<lparr>priority := lowerPriority - 1\<rparr>
                         else if group_id group = group_id (sortedGroups ! nat (index + 1))
                         then group\<lparr>priority := currentPriority\<rparr>
                         else group) gs)))
         else Inr gs)"

section \<open>Notions used in the statements\<close>

text \<open>
  A group matches a path when it has conditions and all of them hold (the test
  \<open>allConditionsMatch\<close> of the loop, after the check for an empty list). What a group
  yields is the outcome of the loop run on this group alone.
\<close>

definition groupMatches :: "env \<Rightarrow> regexp \<Rightarrow> string \<Rightarrow> group \<Rightarrow> bool" where
  "groupMatches e rx p g =
     (conditions g \<noteq> [] \<and> list_all (\<lambda>result. result = True) (map (evaluateCondition e rx p) (conditions g)))"

definition groupYield :: "env \<Rightarrow> regexp \<Rightarrow> string \<Rightarrow> group \<Rightarrow> resolved" where
  "groupYield e rx p g = outcome (groupLoop e rx p [g] (None, False))"

text \<open>Example data: a vault with the note \<open>notes/a.md\<close>, whose frontmatter has the
  property \<open>bg\<close> with the value \<open>not-a-color\<close>; an engine in which no pattern compiles; a
  condition that holds of the note; groups and settings built around them.\<close>

definition ex_env :: env where
  "ex_env =
     \<lparr>getAbstractFileByPath = (\<lambda>p. if p = ''notes/a.md'' then Some (TFile ''md'') else None),
      frontmatter =
        (\<lambda>p. if p = ''notes/a.md''
             then Some (\<lambda>k. if k = ''bg'' then Some (FStr ''not-a-color'') else None)
             else None)\<rparr>"

definition rx_none :: regexp where
  "rx_none = (\<lambda>pat. None)"

definition cond_bg_exists :: condition where
  "cond_bg_exists =
     \<lparr>cond_id = ''k1'', cond_type = Property, pattern = [], matchFullPath = False,
      propertyName = ''bg'', propertyValue = [], propertyOperator = Exists\<rparr>"

definition ex_group :: "string \<Rightarrow> string \<Rightarrow> bool \<Rightarrow> int \<Rightarrow> condition list \<Rightarrow> group" where
  "ex_group gid cid byProperty prio conds =
     \<lparr>group_id = gid, group_name = gid, colorId = cid, usePropertyAsColor = byProperty,
      propertyNameForColor = ''bg'', enabled = True, priority = prio, conditions = conds\<rparr>"

definition ex_settings :: "fileColor list \<Rightarrow> group list \<Rightarrow> settings" where
  "ex_settings fcs gs =
     \<lparr>cascadeColors = False, colorBackground = False, folderNotesCompatibility = False,
      palette = [\<lparr>color_id = ''c1'', color_name = ''Red'', color_value = ''#FF0000''\<rparr>],
      fileColors = fcs, groups = gs\<rparr>"

text \<open>A second vault, whose note has colours in its frontmatter: three digits, six
  digits in lower case, six digits between blanks, and a number.\<close>

definition ex_env_colors :: env where
  "ex_env_colors =
     \<lparr>getAbstractFileByPath = (\<lambda>p. if p = ''notes/a.md'' then Some (TFile ''md'') else None),
      frontmatter =
        (\<lambda>p. if p = ''notes/a.md''
             then Some (\<lambda>k. if k = ''short'' then Some (FStr ''abc'')
                             else if k = ''lower'' then Some (FStr ''abcdef'')
                             else if k = ''spaced'' then Some (FStr '' #A1b2C3 '')
                             else if k = ''number'' then Some (FNum 123456)
                             else None)
             else None)\<rparr>"

text \<open>A panel whose stored settings have manual colours for two notes and a group that
  refers to the colour \<open>c2\<close>; the palette being edited is the argument.\<close>

definition ex_panel :: "paletteColor list \<Rightarrow> panel" where
  "ex_panel pal =
     \<lparr>plugin_settings =
        (ex_settings [\<lparr>path = ''notes/a.md'', color = ''c1''\<rparr>,
                      \<lparr>path = ''notes/b.md'', color = ''c2''\<rparr>]
                     [ex_group ''g1'' ''c2'' False 5 [cond_bg_exists]])
          \<lparr>palette := [\<lparr>color_id = ''c1'', color_name = ''Red'', color_value = ''#FF0000''\<rparr>,
                       \<lparr>color_id = ''c2'', color_name = ''Blue'', color_value = ''#0000FF''\<rparr>]\<rparr>,
      palette_state = pal, colorErrorQueue = [], activeError = None, changed = True\<rparr>"

text \<open>The name under which \<open>onSave\<close> files a colour: trimmed, in lower case.\<close>

definition normName :: "paletteColor \<Rightarrow> string" where
  "normName c = toLowerCase (trim (color_name c))"

text \<open>The table \<open>nameToColors\<close> after the colours \<open>pre\<close> have been filed: the keys are
  distinct, and each name that is not empty has the colours of that name, in their order.\<close>

definition tableOf :: "paletteColor list \<Rightarrow> nameTable \<Rightarrow> bool" where
  "tableOf pre t =
     (distinct (map fst t)
      \<and> (\<forall>k. map_of t k =
            (if k \<noteq> [] \<and> k \<in> normName ` set pre
             then Some (filter (\<lambda>c. normName c = k) pre) else None)))"

section \<open>Basic facts\<close>

lemmas ex_defs = ex_env_def rx_none_def cond_bg_exists_def ex_group_def ex_settings_def

text \<open>The string operations on small inputs.\<close>

lemma file_name_example:
  "substring ''notes/sub/a.md'' (lastIndexOf ''notes/sub/a.md'' CHR ''/'' + 1) = ''a.md''
   \<and> substring ''a.md'' (lastIndexOf ''a.md'' CHR ''/'' + 1) = ''a.md''"
  by code_simp

lemma contains_example:
  "includes_str ''project-alpha'' ''alpha'' \<and> \<not> includes_str ''project'' ''alpha''
   \<and> includes_str ''project'' []"
  by code_simp

lemma String_of_example:
  "String_of (FArr [''a'', ''b'']) = ''a,b'' \<and> String_of (FBool True) = ''true''"
  by simp

lemma digits_example: "digits 42 = ''42''"
  by (simp add: digits.simps digitChar_def)

lemma number_text: "String_of (FNum 123456) = ''123456''"
  by (simp add: digits.simps digitChar_def)

lemma property_color_of_number_example:
  "propertyColor ex_env_colors ''notes/a.md'' ''number'' = Some ''#123456''"
proof -
  have t: "trim ''123456'' = ''123456''" by code_simp
  have h: "hexPattern ''123456''" by code_simp
  have s: "\<not> startsWith ''123456'' ''#''" by code_simp
  show ?thesis
    by (simp add: propertyColor_def ex_env_colors_def Let_def number_text t h s del: String_of.simps)
qed

lemma startsWith_prefix: "startsWith s p = prefix p s"
  by (induction s p rule: startsWith.induct) auto

lemma propertyColor_nonempty: "propertyColor e p key = Some c \<Longrightarrow> c \<noteq> []"
  by (auto simp: propertyColor_def Let_def hexPattern_def hashHex6_def hexN_def
      split: option.splits afile.splits if_splits list.splits)

lemma groupLoop_Cons:
  "groupLoop e rx p (g # gs) (cv, hx) =
     (if groupMatches e rx p g then
        (if usePropertyAsColor g then
           (case propertyColor e p (propertyNameForColor g) of
              Some c \<Rightarrow> (Some c, True)
            | None \<Rightarrow> if truthyStr cv then (cv, hx) else groupLoop e rx p gs (cv, hx))
         else if colorId g \<noteq> [] then (Some (colorId g), hx)
         else groupLoop e rx p gs (Some (colorId g), hx))
      else groupLoop e rx p gs (cv, hx))"
  by (auto simp: groupMatches_def Let_def dest: propertyColor_nonempty split: option.splits)

lemma groupYield_cases:
  "groupYield e rx p g =
     (if groupMatches e rx p g then
        (if usePropertyAsColor g then
           (case propertyColor e p (propertyNameForColor g) of
              Some c \<Rightarrow> LiteralHex c | None \<Rightarrow> NoColor)
         else if colorId g \<noteq> [] then PaletteRef (colorId g) else NoColor)
      else NoColor)"
  unfolding groupYield_def groupLoop_Cons
  by (auto dest: propertyColor_nonempty split: option.splits)

lemma outcome_groupLoop:
  "\<not> truthyStr cv \<Longrightarrow>
   outcome (groupLoop e rx p gs (cv, False)) =
     (case List.find (\<lambda>g. groupYield e rx p g \<noteq> NoColor) gs of
        None \<Rightarrow> NoColor | Some g \<Rightarrow> groupYield e rx p g)"
proof (induction gs arbitrary: cv)
  case Nil
  then show ?case by (cases cv) auto
next
  case (Cons g gs)
  have blank: "\<not> truthyStr (Some [])" by simp
  show ?case
    using Cons.prems Cons.IH [OF Cons.prems] Cons.IH [OF blank]
    unfolding groupLoop_Cons groupYield_cases
    by (auto dest: propertyColor_nonempty split: option.splits)
qed

lemma groupLoop_skip_blank:
  "conditions g = [] \<Longrightarrow>
   groupLoop e rx p (pre @ g # post) st = groupLoop e rx p (pre @ post) st"
proof (induction pre arbitrary: st)
  case Nil
  then show ?case by (cases st) simp
next
  case (Cons a pre)
  then show ?case by (cases st) (simp add: Let_def)
qed

lemma groupLoop_filter_blank:
  "groupLoop e rx p (filter (\<lambda>g. conditions g \<noteq> []) gs) st = groupLoop e rx p gs st"
proof (induction gs arbitrary: st)
  case Nil
  then show ?case by simp
next
  case (Cons a gs)
  then show ?case by (cases st) (simp add: Let_def)
qed

lemma enabledGroups_filter:
  "enabledGroups (s\<lparr>groups := filter P (groups s)\<rparr>) = filter P (enabledGroups s)"
  by (simp add: enabledGroups_def sortByPriority_def filter_sort) (metis filter_filter conj_commute)

section \<open>Deleting a vault item\<close>

text \<open>
  Claim C10. When the item at path \<open>p\<close> is deleted, the manual colours that remain are
  exactly those whose path does not have \<open>p\<close> as a string prefix, in their order and
  unchanged; the palette and the groups are not touched. The test is on strings, not on
  path components, so that deleting \<open>foo\<close> also removes the entry of \<open>foobar.md\<close>.
\<close>

theorem onDelete_removes_prefixed:
  "fileColors (onDelete s p) = filter (\<lambda>fc. \<not> prefix p (path fc)) (fileColors s)
   \<and> palette (onDelete s p) = palette s \<and> groups (onDelete s p) = groups s"
  by (simp add: onDelete_def startsWith_prefix)

lemma onDelete_sibling_example:
  "fileColors (onDelete (ex_settings [\<lparr>path = ''foobar.md'', color = ''c1''\<rparr>,
                                      \<lparr>path = ''foo/x.md'', color = ''c1''\<rparr>,
                                      \<lparr>path = ''bar/foo'', color = ''c1''\<rparr>] []) ''foo'')
     = [\<lparr>path = ''bar/foo'', color = ''c1''\<rparr>]"
  by (simp add: onDelete_def ex_settings_def)

section \<open>Groups without conditions\<close>

text \<open>
  Claim C7. A group whose list of conditions is empty matches no path and yields no
  colour: the loop passes over it wherever it stands, and the resolver gives the same
  result as for the settings without the groups that have no conditions.
\<close>

theorem blank_group_never_matches:
  "conditions g = [] \<Longrightarrow>
     groupMatches e rx p g = False \<and> groupYield e rx p g = NoColor
     \<and> groupLoop e rx p (pre @ g # post) st = groupLoop e rx p (pre @ post) st
     \<and> resolveColor e rx (s\<lparr>groups := filter (\<lambda>g. conditions g \<noteq> []) (groups s)\<rparr>) p
         = resolveColor e rx s p"
proof -
  assume blank: "conditions g = []"
  have "resolveColor e rx (s\<lparr>groups := filter (\<lambda>g. conditions g \<noteq> []) (groups s)\<rparr>) p
          = resolveColor e rx s p"
    by (simp add: resolveColor_def manualFile_def enabledGroups_filter groupLoop_filter_blank Let_def)
  with blank show ?thesis
    by (simp add: groupMatches_def groupYield_cases groupLoop_skip_blank)
qed

theorem blank_group_never_matches_witness:
  "conditions (ex_group ''g0'' ''c1'' False 9 []) = []
   \<and> groupYield ex_env rx_none ''notes/a.md'' (ex_group ''g0'' ''c1'' False 9 []) = NoColor
   \<and> resolveColor ex_env rx_none
        (ex_settings [] [ex_group ''g0'' ''c1'' False 9 [], ex_group ''g1'' ''c2'' False 1 [cond_bg_exists]])
        ''notes/a.md'' = (Some ''c2'', False)"
  using blank_group_never_matches [of "ex_group ''g0'' ''c1'' False 9 []" ex_env rx_none "''notes/a.md''"
      "[]" "[ex_group ''g1'' ''c2'' False 1 [cond_bg_exists]]" "(None, False)"
      "ex_settings [] [ex_group ''g0'' ''c1'' False 9 [], ex_group ''g1'' ''c2'' False 1 [cond_bg_exists]]"]
  by (simp add: ex_defs resolveColor_def manualFile_def enabledGroups_def sortByPriority_def
      evaluateCondition_def Let_def)

section \<open>A matching group whose property gives no colour\<close>

lemma outcome_resolveColor:
  "outcome (resolveColor e rx s p) =
     (if truthyStr (map_option color (manualFile s p))
      then (case manualFile s p of Some f \<Rightarrow> PaletteRef (color f) | None \<Rightarrow> NoColor)
      else (case List.find (\<lambda>g. groupYield e rx p g \<noteq> NoColor) (enabledGroups s) of
              None \<Rightarrow> NoColor | Some g \<Rightarrow> groupYield e rx p g))"
  by (auto simp: resolveColor_def Let_def outcome_groupLoop split: option.splits)

lemma find_skip:
  "\<not> P g \<Longrightarrow> List.find P (pre @ g # post) = List.find P (pre @ post)"
  by (induction pre) auto

lemma applyColor_outcome:
  "outcome st = outcome st' \<Longrightarrow> applyColor s st item = applyColor s st' item"
  by (cases st; cases st'; cases "fst st"; cases "fst st'")
     (auto simp: applyColor_def Let_def split: if_splits)

text \<open>
  Claim C1, as the code has it. A group that takes its colour from a property yields no
  colour when the property gives none (the file is no note, the property is missing or
  falsy, or its text is not a hexadecimal colour). The loop leaves the variable
  \<open>colorValue\<close> as it was and goes on: the result of the resolver is the colour of the
  next enabled group, in the order of the loop, that matches and yields a colour, and no
  colour only when there is none.
\<close>
theorem property_group_without_color_falls_through:
  assumes "usePropertyAsColor g"
    and "propertyColor e p (propertyNameForColor g) = None"
    and "\<not> truthyStr (map_option color (manualFile s p))"
    and "enabledGroups s = pre @ g # post"
  shows "groupYield e rx p g = NoColor
     \<and> outcome (resolveColor e rx s p)
         = (case List.find (\<lambda>h. groupYield e rx p h \<noteq> NoColor) (pre @ post) of
              None \<Rightarrow> NoColor | Some h \<Rightarrow> groupYield e rx p h)"
proof -
  have y: "groupYield e rx p g = NoColor"
    using assms(1,2) by (simp add: groupYield_cases)
  then show ?thesis
    using assms(3,4) by (simp add: outcome_resolveColor find_skip)
qed

theorem property_group_without_color_falls_through_witness:
  "usePropertyAsColor (ex_group ''g1'' ''c9'' True 5 [cond_bg_exists])
   \<and> propertyColor ex_env ''notes/a.md''
        (propertyNameForColor (ex_group ''g1'' ''c9'' True 5 [cond_bg_exists])) = None
   \<and> \<not> truthyStr (map_option color (manualFile
         (ex_settings [] [ex_group ''g2'' ''c1'' False 1 [cond_bg_exists],
                          ex_group ''g1'' ''c9'' True 5 [cond_bg_exists]]) ''notes/a.md''))
   \<and> enabledGroups (ex_settings [] [ex_group ''g2'' ''c1'' False 1 [cond_bg_exists],
                                   ex_group ''g1'' ''c9'' True 5 [cond_bg_exists]])
       = [] @ ex_group ''g1'' ''c9'' True 5 [cond_bg_exists]
            # [ex_group ''g2'' ''c1'' False 1 [cond_bg_exists]]
   \<and> outcome (resolveColor ex_env rx_none
        (ex_settings [] [ex_group ''g2'' ''c1'' False 1 [cond_bg_exists],
                         ex_group ''g1'' ''c9'' True 5 [cond_bg_exists]]) ''notes/a.md'')
       = PaletteRef ''c1''"
proof -
  have h1: "usePropertyAsColor (ex_group ''g1'' ''c9'' True 5 [cond_bg_exists])"
    by (simp add: ex_defs)
  have h2: "propertyColor ex_env ''notes/a.md''
        (propertyNameForColor (ex_group ''g1'' ''c9'' True 5 [cond_bg_exists])) = None"
    by (simp add: ex_defs propertyColor_def Let_def hexPattern_def hashHex6_def hexN_def
        trim_def isSpace_def)
  have h3: "\<not> truthyStr (map_option color (manualFile
         (ex_settings [] [ex_group ''g2'' ''c1'' False 1 [cond_bg_exists],
                          ex_group ''g1'' ''c9'' True 5 [cond_bg_exists]]) ''notes/a.md''))"
    by (simp add: ex_defs manualFile_def)
  have h4: "enabledGroups (ex_settings [] [ex_group ''g2'' ''c1'' False 1 [cond_bg_exists],
                                   ex_group ''g1'' ''c9'' True 5 [cond_bg_exists]])
       = [] @ ex_group ''g1'' ''c9'' True 5 [cond_bg_exists]
            # [ex_group ''g2'' ''c1'' False 1 [cond_bg_exists]]"
    by (simp add: ex_defs enabledGroups_def sortByPriority_def)
  have y: "groupYield ex_env rx_none ''notes/a.md'' (ex_group ''g2'' ''c1'' False 1 [cond_bg_exists])
            = PaletteRef ''c1''"
    by (simp add: groupYield_cases groupMatches_def evaluateCondition_def ex_defs)
  show ?thesis
    using property_group_without_color_falls_through [OF h1 h2 h3 h4, of rx_none] h1 h2 h3 h4 y
    by simp
qed

theorem property_group_fallback_counterexample:
  "usePropertyAsColor (ex_group ''g1'' ''c9'' True 5 [cond_bg_exists])
   \<and> propertyNameForColor (ex_group ''g1'' ''c9'' True 5 [cond_bg_exists]) = ''bg''
   \<and> enabledGroups (ex_settings [] [ex_group ''g2'' ''c1'' False 1 [cond_bg_exists],
                                   ex_group ''g1'' ''c9'' True 5 [cond_bg_exists]])
       = [ex_group ''g1'' ''c9'' True 5 [cond_bg_exists],
          ex_group ''g2'' ''c1'' False 1 [cond_bg_exists]]
   \<and> groupMatches ex_env rx_none ''notes/a.md'' (ex_group ''g1'' ''c9'' True 5 [cond_bg_exists])
   \<and> propertyColor ex_env ''notes/a.md'' ''bg'' = None
   \<and> hexPattern (trim ''not-a-color'') = False
   \<and> resolveColor ex_env rx_none
        (ex_settings [] [ex_group ''g2'' ''c1'' False 1 [cond_bg_exists],
                         ex_group ''g1'' ''c9'' True 5 [cond_bg_exists]]) ''notes/a.md''
       = (Some ''c1'', False)"
  by (simp add: ex_defs groupMatches_def evaluateCondition_def propertyColor_def Let_def
      hexPattern_def hashHex6_def hexN_def trim_def isSpace_def resolveColor_def manualFile_def
      enabledGroups_def sortByPriority_def)

section \<open>Manual colours\<close>

text \<open>
  Claim C3, as the code has it. When the first manual entry for the path has a colour id
  that is not the empty string, the resolver returns this id as a palette reference, and
  the result does not depend on the groups. (An entry whose colour id is the empty
  string is falsy in the test \<open>!colorValue\<close>, and the groups are consulted.)
\<close>
theorem manual_color_overrides_groups:
  assumes "manualFile s p = Some f" and "color f \<noteq> []"
  shows "resolveColor e rx s p = (Some (color f), False)
     \<and> outcome (resolveColor e rx s p) = PaletteRef (color f)
     \<and> resolveColor e rx (s\<lparr>groups := gs\<rparr>) p = resolveColor e rx s p"
  using assms by (simp add: resolveColor_def manualFile_def Let_def)

theorem manual_color_overrides_groups_witness:
  "manualFile (ex_settings [\<lparr>path = ''notes/a.md'', color = ''c1''\<rparr>]
                 [ex_group ''g2'' ''c2'' False 1 [cond_bg_exists]]) ''notes/a.md''
     = Some \<lparr>path = ''notes/a.md'', color = ''c1''\<rparr>
   \<and> color \<lparr>path = ''notes/a.md'', color = ''c1''\<rparr> \<noteq> []
   \<and> groupYield ex_env rx_none ''notes/a.md'' (ex_group ''g2'' ''c2'' False 1 [cond_bg_exists])
       = PaletteRef ''c2''
   \<and> outcome (resolveColor ex_env rx_none
        (ex_settings [\<lparr>path = ''notes/a.md'', color = ''c1''\<rparr>]
           [ex_group ''g2'' ''c2'' False 1 [cond_bg_exists]]) ''notes/a.md'') = PaletteRef ''c1''"
proof -
  have h1: "manualFile (ex_settings [\<lparr>path = ''notes/a.md'', color = ''c1''\<rparr>]
                 [ex_group ''g2'' ''c2'' False 1 [cond_bg_exists]]) ''notes/a.md''
     = Some \<lparr>path = ''notes/a.md'', color = ''c1''\<rparr>"
    by (simp add: ex_defs manualFile_def)
  have h2: "color \<lparr>path = ''notes/a.md'', color = ''c1''\<rparr> \<noteq> []" by simp
  have y: "groupYield ex_env rx_none ''notes/a.md'' (ex_group ''g2'' ''c2'' False 1 [cond_bg_exists])
            = PaletteRef ''c2''"
    by (simp add: groupYield_cases groupMatches_def evaluateCondition_def ex_defs)
  show ?thesis
    using manual_color_overrides_groups [OF h1 h2, of ex_env rx_none] h1 y by simp
qed

theorem manual_entry_empty_color_counterexample:
  "manualFile (ex_settings [\<lparr>path = ''notes/a.md'', color = []\<rparr>]
                 [ex_group ''g2'' ''c1'' False 1 [cond_bg_exists]]) ''notes/a.md''
     = Some \<lparr>path = ''notes/a.md'', color = []\<rparr>
   \<and> resolveColor ex_env rx_none
        (ex_settings [\<lparr>path = ''notes/a.md'', color = []\<rparr>]
           [ex_group ''g2'' ''c1'' False 1 [cond_bg_exists]]) ''notes/a.md'' = (Some ''c1'', False)
   \<and> resolveColor ex_env rx_none
        (ex_settings [\<lparr>path = ''notes/a.md'', color = []\<rparr>] []) ''notes/a.md'' = (Some [], False)"
  by (simp add: ex_defs evaluateCondition_def Let_def resolveColor_def manualFile_def
      enabledGroups_def sortByPriority_def)

section \<open>The order of the groups\<close>

lemma sortByPriority_sorted:
  "sorted_wrt (\<lambda>a b. priority b \<le> priority a) (sortByPriority gs)"
proof -
  have "sorted (map (\<lambda>g. - priority g) (sortByPriority gs))"
    unfolding sortByPriority_def by (rule sorted_sort_key)
  then show ?thesis by (simp add: sorted_map)
qed

lemma sortByPriority_stable:
  "filter (\<lambda>g. priority g = k) (sortByPriority gs) = filter (\<lambda>g. priority g = k) gs"
proof -
  have "filter (\<lambda>g. - priority g = - k) (sort_key (\<lambda>g. - priority g) gs)
          = filter (\<lambda>g. - priority g = - k) gs"
    by (rule sort_key_stable)
  then show ?thesis by (simp add: sortByPriority_def)
qed

lemma find_first_of_sorted:
  assumes srt: "sorted_wrt (\<lambda>a b. priority b \<le> priority a) es"
    and g: "g \<in> set es" "P g"
    and top: "\<And>h. h \<in> set es \<Longrightarrow> P h \<Longrightarrow> h \<noteq> g \<Longrightarrow> priority h < priority g"
  shows "List.find P es = Some g"
proof -
  from g obtain k where k: "k < length es" "es ! k = g"
    by (auto simp: in_set_conv_nth)
  from g have "List.find P es \<noteq> None"
    by (auto simp: find_None_iff)
  then obtain h where h: "List.find P es = Some h" by auto
  then obtain i where i: "i < length es" "P (es ! i)" "h = es ! i" "\<forall>j<i. \<not> P (es ! j)"
    by (auto simp: find_Some_iff)
  have "i \<le> k"
    using i(4) k g(2) by (metis not_le_imp_less)
  have "h = g"
  proof (rule ccontr)
    assume neq: "h \<noteq> g"
    then have "i \<noteq> k" using i(3) k(2) by auto
    with \<open>i \<le> k\<close> have "i < k" by simp
    then have "priority (es ! k) \<le> priority (es ! i)"
      using srt k(1) by (simp add: sorted_wrt_iff_nth_less)
    moreover have "priority h < priority g"
      using top [of h] i neq by auto
    ultimately show False using i(3) k(2) by simp
  qed
  with h show ?thesis by simp
qed

text \<open>
  Claim C2, as the code has it. The loop runs over the enabled groups only, sorted by
  descending priority, groups of equal priority keeping the order of the settings (the
  sort is stable); the disabled groups have no effect on the result. When no manual colour
  applies, the result is what the first group of this order that matches and yields a
  colour yields. So an enabled group that yields a colour wins when every other enabled
  group that yields a colour has a strictly lower priority. (A matching group that yields
  no colour does not win: the loop goes on.)
\<close>
theorem enabled_groups_in_priority_order:
  "mset (enabledGroups s) = mset (filter enabled (groups s))
   \<and> sorted_wrt (\<lambda>a b. priority b \<le> priority a) (enabledGroups s)
   \<and> filter (\<lambda>g. priority g = k) (enabledGroups s)
       = filter (\<lambda>g. priority g = k) (filter enabled (groups s))
   \<and> resolveColor e rx (s\<lparr>groups := filter enabled (groups s)\<rparr>) p = resolveColor e rx s p
   \<and> (\<not> truthyStr (map_option color (manualFile s p)) \<longrightarrow>
        outcome (resolveColor e rx s p)
          = (case List.find (\<lambda>h. groupYield e rx p h \<noteq> NoColor) (enabledGroups s) of
               None \<Rightarrow> NoColor | Some h \<Rightarrow> groupYield e rx p h))
   \<and> (\<not> truthyStr (map_option color (manualFile s p)) \<and> g \<in> set (groups s) \<and> enabled g
        \<and> groupYield e rx p g \<noteq> NoColor
        \<and> (\<forall>h \<in> set (groups s). enabled h \<and> groupYield e rx p h \<noteq> NoColor \<and> h \<noteq> g
              \<longrightarrow> priority h < priority g)
        \<longrightarrow> outcome (resolveColor e rx s p) = groupYield e rx p g)"
proof -
  have a: "mset (enabledGroups s) = mset (filter enabled (groups s))"
    by (simp add: enabledGroups_def sortByPriority_def)
  have b: "sorted_wrt (\<lambda>a b. priority b \<le> priority a) (enabledGroups s)"
    by (simp add: enabledGroups_def sortByPriority_sorted)
  have c: "filter (\<lambda>g. priority g = k) (enabledGroups s)
       = filter (\<lambda>g. priority g = k) (filter enabled (groups s))"
    unfolding enabledGroups_def by (rule sortByPriority_stable)
  have d: "resolveColor e rx (s\<lparr>groups := filter enabled (groups s)\<rparr>) p = resolveColor e rx s p"
    by (simp add: resolveColor_def manualFile_def enabledGroups_def Let_def)
  have f: "outcome (resolveColor e rx s p)
          = (case List.find (\<lambda>h. groupYield e rx p h \<noteq> NoColor) (enabledGroups s) of
               None \<Rightarrow> NoColor | Some h \<Rightarrow> groupYield e rx p h)"
    if "\<not> truthyStr (map_option color (manualFile s p))"
    using that by (simp add: outcome_resolveColor)
  have w: "outcome (resolveColor e rx s p) = groupYield e rx p g"
    if m: "\<not> truthyStr (map_option color (manualFile s p))"
      and g: "g \<in> set (groups s)" "enabled g" "groupYield e rx p g \<noteq> NoColor"
      and top: "\<forall>h \<in> set (groups s). enabled h \<and> groupYield e rx p h \<noteq> NoColor \<and> h \<noteq> g
              \<longrightarrow> priority h < priority g"
  proof -
    have mem: "set (enabledGroups s) = {h \<in> set (groups s). enabled h}"
      by (simp add: enabledGroups_def sortByPriority_def)
    have "List.find (\<lambda>h. groupYield e rx p h \<noteq> NoColor) (enabledGroups s) = Some g"
    proof (rule find_first_of_sorted [OF b])
      show "g \<in> set (enabledGroups s)" using g mem by simp
      show "groupYield e rx p g \<noteq> NoColor" by (rule g(3))
      fix h assume "h \<in> set (enabledGroups s)" "groupYield e rx p h \<noteq> NoColor" "h \<noteq> g"
      then show "priority h < priority g" using top mem by auto
    qed
    then show ?thesis using f [OF m] by simp
  qed
  from a b c d f w show ?thesis by blast
qed

theorem enabled_groups_in_priority_order_witness:
  "\<not> truthyStr (map_option color (manualFile
        (ex_settings [] [ex_group ''g1'' ''c1'' False 1 [cond_bg_exists],
                         ex_group ''g2'' ''c2'' False 5 [cond_bg_exists],
                         (ex_group ''g3'' ''c3'' False 9 [cond_bg_exists])\<lparr>enabled := False\<rparr>])
        ''notes/a.md''))
   \<and> ex_group ''g2'' ''c2'' False 5 [cond_bg_exists]
       \<in> set (groups (ex_settings [] [ex_group ''g1'' ''c1'' False 1 [cond_bg_exists],
                         ex_group ''g2'' ''c2'' False 5 [cond_bg_exists],
                         (ex_group ''g3'' ''c3'' False 9 [cond_bg_exists])\<lparr>enabled := False\<rparr>]))
   \<and> enabled (ex_group ''g2'' ''c2'' False 5 [cond_bg_exists])
   \<and> groupYield ex_env rx_none ''notes/a.md'' (ex_group ''g2'' ''c2'' False 5 [cond_bg_exists])
       = PaletteRef ''c2''
   \<and> filter (\<lambda>h. enabled h \<and> groupYield ex_env rx_none ''notes/a.md'' h \<noteq> NoColor
                \<and> h \<noteq> ex_group ''g2'' ''c2'' False 5 [cond_bg_exists]
                \<and> \<not> priority h < priority (ex_group ''g2'' ''c2'' False 5 [cond_bg_exists]))
        (groups (ex_settings [] [ex_group ''g1'' ''c1'' False 1 [cond_bg_exists],
                         ex_group ''g2'' ''c2'' False 5 [cond_bg_exists],
                         (ex_group ''g3'' ''c3'' False 9 [cond_bg_exists])\<lparr>enabled := False\<rparr>])) = []
   \<and> outcome (resolveColor ex_env rx_none
        (ex_settings [] [ex_group ''g1'' ''c1'' False 1 [cond_bg_exists],
                         ex_group ''g2'' ''c2'' False 5 [cond_bg_exists],
                         (ex_group ''g3'' ''c3'' False 9 [cond_bg_exists])\<lparr>enabled := False\<rparr>])
        ''notes/a.md'') = PaletteRef ''c2''"
proof -
  let ?g = "ex_group ''g2'' ''c2'' False 5 [cond_bg_exists]"
  let ?S = "ex_settings [] [ex_group ''g1'' ''c1'' False 1 [cond_bg_exists], ?g,
              (ex_group ''g3'' ''c3'' False 9 [cond_bg_exists])\<lparr>enabled := False\<rparr>]"
  have h1: "\<not> truthyStr (map_option color (manualFile ?S ''notes/a.md''))"
    by (simp add: ex_defs manualFile_def)
  have h2: "?g \<in> set (groups ?S)" by (simp add: ex_settings_def)
  have h3: "enabled ?g" by (simp add: ex_group_def)
  have h4: "groupYield ex_env rx_none ''notes/a.md'' ?g = PaletteRef ''c2''"
    by (simp add: groupYield_cases groupMatches_def evaluateCondition_def ex_defs)
  have h5: "filter (\<lambda>h. enabled h \<and> groupYield ex_env rx_none ''notes/a.md'' h \<noteq> NoColor
                \<and> h \<noteq> ?g \<and> \<not> priority h < priority ?g) (groups ?S) = []"
    by (simp add: ex_defs)
  have ball: "\<forall>h \<in> set (groups ?S). enabled h \<and> groupYield ex_env rx_none ''notes/a.md'' h \<noteq> NoColor
                \<and> h \<noteq> ?g \<longrightarrow> priority h < priority ?g"
    using h5 by (auto simp: filter_empty_conv)
  note T = enabled_groups_in_priority_order
    [where s = ?S and g = ?g and e = ex_env and rx = rx_none and p = "''notes/a.md''" and k = 5]
  note win = T [THEN conjunct2, THEN conjunct2, THEN conjunct2, THEN conjunct2, THEN conjunct2]
  have "outcome (resolveColor ex_env rx_none ?S ''notes/a.md'')
          = groupYield ex_env rx_none ''notes/a.md'' ?g"
    using win h1 h2 h3 h4 ball by simp
  with h1 h2 h3 h4 h5 show ?thesis by simp
qed

lemma equal_priority_example:
  "enabledGroups (ex_settings [] [ex_group ''g1'' ''c1'' False 1 [cond_bg_exists],
                                  ex_group ''g2'' ''c2'' False 5 [cond_bg_exists],
                                  ex_group ''g3'' ''c3'' False 5 [cond_bg_exists]])
     = [ex_group ''g2'' ''c2'' False 5 [cond_bg_exists],
        ex_group ''g3'' ''c3'' False 5 [cond_bg_exists],
        ex_group ''g1'' ''c1'' False 1 [cond_bg_exists]]
   \<and> resolveColor ex_env rx_none
        (ex_settings [] [ex_group ''g1'' ''c1'' False 1 [cond_bg_exists],
                         ex_group ''g2'' ''c2'' False 5 [cond_bg_exists],
                         ex_group ''g3'' ''c3'' False 5 [cond_bg_exists]]) ''notes/a.md''
       = (Some ''c2'', False)"
  by (simp add: ex_defs evaluateCondition_def Let_def resolveColor_def manualFile_def
      enabledGroups_def sortByPriority_def)

theorem highest_matching_group_without_color_counterexample:
  "groups (ex_settings [] [ex_group ''g1'' ''c1'' False 1 [cond_bg_exists],
                           ex_group ''g2'' [] False 5 [cond_bg_exists]])
     = [ex_group ''g1'' ''c1'' False 1 [cond_bg_exists], ex_group ''g2'' [] False 5 [cond_bg_exists]]
   \<and> enabled (ex_group ''g2'' [] False 5 [cond_bg_exists])
   \<and> groupMatches ex_env rx_none ''notes/a.md'' (ex_group ''g2'' [] False 5 [cond_bg_exists])
   \<and> groupMatches ex_env rx_none ''notes/a.md'' (ex_group ''g1'' ''c1'' False 1 [cond_bg_exists])
   \<and> priority (ex_group ''g1'' ''c1'' False 1 [cond_bg_exists])
       < priority (ex_group ''g2'' [] False 5 [cond_bg_exists])
   \<and> groupYield ex_env rx_none ''notes/a.md'' (ex_group ''g2'' [] False 5 [cond_bg_exists]) = NoColor
   \<and> resolveColor ex_env rx_none
        (ex_settings [] [ex_group ''g1'' ''c1'' False 1 [cond_bg_exists],
                         ex_group ''g2'' [] False 5 [cond_bg_exists]]) ''notes/a.md''
       = (Some ''c1'', False)"
  by (simp add: ex_defs groupYield_cases groupMatches_def evaluateCondition_def Let_def
      resolveColor_def manualFile_def enabledGroups_def sortByPriority_def)

section \<open>References to missing palette colours\<close>

text \<open>
  Claim C6, as the code has it. The resolver never looks at the palette: its result is
  the same for every palette. When a manual entry, or the group that wins, names a colour
  id that is not empty and not in the palette, the resolver still yields this id as a
  palette reference and the item gets the classes \<open>file-color-file\<close> and
  \<open>file-color-color-\<close> followed by the id; only the generated style sheet has no rule
  for that class.
\<close>
theorem dangling_color_reference_is_emitted:
  assumes "cid \<noteq> []"
    and "cid \<notin> set (map color_id (palette s))"
    and "(manualFile s p = Some f \<and> color f = cid)
         \<or> (\<not> truthyStr (map_option color (manualFile s p))
             \<and> List.find (\<lambda>h. groupYield e rx p h \<noteq> NoColor) (enabledGroups s) = Some g
             \<and> \<not> usePropertyAsColor g \<and> colorId g = cid)"
  shows "outcome (resolveColor e rx s p) = PaletteRef cid
     \<and> ''file-color-file'' \<in> set (classList (applyColorStyles e rx s p item))
     \<and> ''file-color-color-'' @ cid \<in> set (classList (applyColorStyles e rx s p item))
     \<and> ''file-color-color-'' @ cid \<notin> set (map fst (generateColorStyles s))
     \<and> resolveColor e rx (s\<lparr>palette := pal\<rparr>) p = resolveColor e rx s p"
proof -
  have r: "outcome (resolveColor e rx s p) = PaletteRef cid"
    using assms(3)
  proof
    assume "manualFile s p = Some f \<and> color f = cid"
    then show ?thesis using assms(1) by (simp add: outcome_resolveColor)
  next
    assume a: "\<not> truthyStr (map_option color (manualFile s p))
             \<and> List.find (\<lambda>h. groupYield e rx p h \<noteq> NoColor) (enabledGroups s) = Some g
             \<and> \<not> usePropertyAsColor g \<and> colorId g = cid"
    then have "groupYield e rx p g \<noteq> NoColor" by (auto simp: find_Some_iff)
    then have "groupYield e rx p g = PaletteRef cid"
      using a by (auto simp: groupYield_cases split: if_splits)
    then show ?thesis using a by (simp add: outcome_resolveColor)
  qed
  have "applyColor s (resolveColor e rx s p) item = applyColor s (Some cid, False) item"
    by (rule applyColor_outcome) (simp add: r assms(1))
  then have cls: "''file-color-file'' \<in> set (classList (applyColorStyles e rx s p item))
      \<and> ''file-color-color-'' @ cid \<in> set (classList (applyColorStyles e rx s p item))"
    using assms(1) by (simp add: applyColorStyles_def applyColor_def Let_def)
  have norule: "''file-color-color-'' @ cid \<notin> set (map fst (generateColorStyles s))"
    using assms(2) by (auto simp: generateColorStyles_def)
  have pal: "resolveColor e rx (s\<lparr>palette := pal\<rparr>) p = resolveColor e rx s p"
    by (simp add: resolveColor_def manualFile_def enabledGroups_def Let_def)
  from r cls norule pal show ?thesis by simp
qed

theorem dangling_color_reference_is_emitted_witness:
  "''gone'' \<noteq> []
   \<and> ''gone'' \<notin> set (map color_id (palette
         (ex_settings [] [ex_group ''g1'' ''gone'' False 5 [cond_bg_exists]])))
   \<and> \<not> truthyStr (map_option color (manualFile
         (ex_settings [] [ex_group ''g1'' ''gone'' False 5 [cond_bg_exists]]) ''notes/a.md''))
   \<and> List.find (\<lambda>h. groupYield ex_env rx_none ''notes/a.md'' h \<noteq> NoColor)
        (enabledGroups (ex_settings [] [ex_group ''g1'' ''gone'' False 5 [cond_bg_exists]]))
       = Some (ex_group ''g1'' ''gone'' False 5 [cond_bg_exists])
   \<and> \<not> usePropertyAsColor (ex_group ''g1'' ''gone'' False 5 [cond_bg_exists])
   \<and> colorId (ex_group ''g1'' ''gone'' False 5 [cond_bg_exists]) = ''gone''
   \<and> outcome (resolveColor ex_env rx_none
        (ex_settings [] [ex_group ''g1'' ''gone'' False 5 [cond_bg_exists]]) ''notes/a.md'')
       = PaletteRef ''gone''
   \<and> ''file-color-color-gone'' \<in> set (classList (applyColorStyles ex_env rx_none
        (ex_settings [] [ex_group ''g1'' ''gone'' False 5 [cond_bg_exists]]) ''notes/a.md''
        \<lparr>classList = [''nav-file-title''], styleColor = None\<rparr>))
   \<and> ''file-color-color-gone'' \<notin> set (map fst (generateColorStyles
        (ex_settings [] [ex_group ''g1'' ''gone'' False 5 [cond_bg_exists]])))"
proof -
  let ?g = "ex_group ''g1'' ''gone'' False 5 [cond_bg_exists]"
  let ?S = "ex_settings [] [?g]"
  have h1: "''gone'' \<noteq> []" by simp
  have h2: "''gone'' \<notin> set (map color_id (palette ?S))" by (simp add: ex_settings_def)
  have h3: "\<not> truthyStr (map_option color (manualFile ?S ''notes/a.md''))"
    by (simp add: ex_settings_def manualFile_def)
  have h4: "List.find (\<lambda>h. groupYield ex_env rx_none ''notes/a.md'' h \<noteq> NoColor)
        (enabledGroups ?S) = Some ?g"
    by (simp add: enabledGroups_def sortByPriority_def groupYield_cases groupMatches_def
        evaluateCondition_def ex_defs)
  have h5: "\<not> usePropertyAsColor ?g" by (simp add: ex_group_def)
  have h6: "colorId ?g = ''gone''" by (simp add: ex_group_def)
  have h: "(manualFile ?S ''notes/a.md'' = Some \<lparr>path = [], color = []\<rparr>
             \<and> color \<lparr>path = [], color = []\<rparr> = ''gone'')
         \<or> (\<not> truthyStr (map_option color (manualFile ?S ''notes/a.md''))
             \<and> List.find (\<lambda>h. groupYield ex_env rx_none ''notes/a.md'' h \<noteq> NoColor)
                  (enabledGroups ?S) = Some ?g
             \<and> \<not> usePropertyAsColor ?g \<and> colorId ?g = ''gone'')"
    using h3 h4 h5 h6 by simp
  note T = dangling_color_reference_is_emitted [OF h1 h2 h,
      of "\<lparr>classList = [''nav-file-title''], styleColor = None\<rparr>" "[]"]
  have "''file-color-color-'' @ ''gone'' = ''file-color-color-gone''" by simp
  with T h1 h2 h3 h4 h5 h6 show ?thesis by simp
qed

theorem dangling_color_reference_counterexample:
  "''gone'' \<notin> set (map color_id (palette
       (ex_settings [\<lparr>path = ''notes/a.md'', color = ''gone''\<rparr>] [])))
   \<and> manualFile (ex_settings [\<lparr>path = ''notes/a.md'', color = ''gone''\<rparr>] []) ''notes/a.md''
       = Some \<lparr>path = ''notes/a.md'', color = ''gone''\<rparr>
   \<and> resolveColor ex_env rx_none
        (ex_settings [\<lparr>path = ''notes/a.md'', color = ''gone''\<rparr>] []) ''notes/a.md''
       = (Some ''gone'', False)
   \<and> applyColorStyles ex_env rx_none
        (ex_settings [\<lparr>path = ''notes/a.md'', color = ''gone''\<rparr>] []) ''notes/a.md''
        \<lparr>classList = [''nav-file-title''], styleColor = None\<rparr>
       = \<lparr>classList = [''nav-file-title'', ''file-color-file'', ''file-color-color-gone'',
                       ''file-color-type-text''],
          styleColor = None\<rparr>
   \<and> resolveColor ex_env rx_none
        (ex_settings [] [ex_group ''g1'' ''gone'' False 5 [cond_bg_exists]]) ''notes/a.md''
       = (Some ''gone'', False)"
  by (simp add: ex_defs evaluateCondition_def Let_def resolveColor_def manualFile_def
      enabledGroups_def sortByPriority_def applyColorStyles_def applyColor_def)

section \<open>Hexadecimal colours\<close>

lemma isHexDigit_hash [simp]: "\<not> isHexDigit CHR ''#''"
  by code_simp

lemma toUpperChar_hexDigits:
  "list_all (\<lambda>c. toUpperChar c \<in> set ''0123456789ABCDEF'') hexDigits"
  by code_simp

lemma toUpperChar_hex:
  "isHexDigit c \<Longrightarrow> toUpperChar c \<in> set ''0123456789ABCDEF''"
  using toUpperChar_hexDigits unfolding isHexDigit_def list_all_iff by blast

lemma validateAndNormalizeHex_cases:
  "validateAndNormalizeHex s =
     (let t = trim s; ds = (case t of c # r \<Rightarrow> if c = CHR ''#'' then r else t | [] \<Rightarrow> t)
      in if hexN 6 ds then Some (CHR ''#'' # toUpperCase ds)
         else if hexN 3 ds then Some (CHR ''#'' # toUpperCase (concat (map (\<lambda>c. [c, c]) ds)))
         else None)"
  by (cases "trim s") (simp_all add: validateAndNormalizeHex_def Let_def substring_def)

lemma validateAndNormalizeHex_accepts:
  "(validateAndNormalizeHex s \<noteq> None) =
     (\<exists>ds. (trim s = ds \<or> trim s = CHR ''#'' # ds)
           \<and> list_all isHexDigit ds \<and> (length ds = 3 \<or> length ds = 6))"
  unfolding validateAndNormalizeHex_cases Let_def
  by (cases "trim s") (auto simp: hexN_def)

lemma validateAndNormalizeHex_form:
  assumes "validateAndNormalizeHex s = Some r"
  shows "length r = 7 \<and> take 1 r = ''#'' \<and> list_all (\<lambda>c. c \<in> set ''0123456789ABCDEF'') (drop 1 r)"
proof -
  let ?ds = "case trim s of c # r \<Rightarrow> if c = CHR ''#'' then r else trim s | [] \<Rightarrow> trim s"
  have up: "list_all (\<lambda>c. c \<in> set ''0123456789ABCDEF'') (toUpperCase ds)"
    if "list_all isHexDigit ds" for ds
    using that toUpperChar_hex by (induction ds) (auto simp: toUpperCase_def)
  have dbl: "list_all isHexDigit (concat (map (\<lambda>c. [c, c]) ds))" if "list_all isHexDigit ds" for ds
    using that by (induction ds) auto
  have len: "length (concat (map (\<lambda>c. [c, c]) ds)) = 2 * length ds" for ds :: string
    by (induction ds) auto
  from assms consider
      (six) "hexN 6 ?ds" "r = CHR ''#'' # toUpperCase ?ds"
    | (three) "hexN 3 ?ds" "r = CHR ''#'' # toUpperCase (concat (map (\<lambda>c. [c, c]) ?ds))"
    unfolding validateAndNormalizeHex_cases Let_def by (auto split: if_splits)
  then show ?thesis
  proof cases
    case six
    then show ?thesis using up [of ?ds] by (simp add: hexN_def toUpperCase_def)
  next
    case three
    then show ?thesis using up [OF dbl, of ?ds] len [of ?ds]
      by (simp add: hexN_def toUpperCase_def)
  qed
qed

lemma propertyColor_accepts:
  "(propertyColor e p key = Some r) =
     (\<exists>fm v ds. getAbstractFileByPath e p = Some (TFile ''md'') \<and> frontmatter e p = Some fm
        \<and> fm key = Some v \<and> truthy v
        \<and> (trim (String_of v) = ds \<or> trim (String_of v) = CHR ''#'' # ds)
        \<and> length ds = 6 \<and> list_all isHexDigit ds \<and> r = CHR ''#'' # ds)"
  unfolding propertyColor_def Let_def hexPattern_def hashHex6_def
  by (cases "getAbstractFileByPath e p")
     (auto simp: hexN_def split: afile.splits option.splits list.splits)

text \<open>
  Claim C4, as the code has it. \<open>validateAndNormalizeHex\<close> (palette editing) accepts
  exactly the strings that, once the white space around them is trimmed, are three or six
  hexadecimal digits with an optional leading \<open>#\<close>; its result is \<open>#\<close> and six digits
  in upper case, each digit of a three-digit colour being doubled. The resolver reads a
  colour from a property by a rule of its own: it accepts exactly the truthy values whose
  trimmed text is six hexadecimal digits with an optional leading \<open>#\<close>, and yields
  \<open>#\<close> and the six digits as they are written; three digits give no colour.
\<close>
theorem hex_normalization:
  "(validateAndNormalizeHex s \<noteq> None) =
     (\<exists>ds. (trim s = ds \<or> trim s = CHR ''#'' # ds)
           \<and> list_all isHexDigit ds \<and> (length ds = 3 \<or> length ds = 6))
   \<and> (validateAndNormalizeHex s = Some r \<longrightarrow>
        length r = 7 \<and> take 1 r = ''#''
        \<and> list_all (\<lambda>c. c \<in> set ''0123456789ABCDEF'') (drop 1 r))
   \<and> ((trim s = ds \<or> trim s = CHR ''#'' # ds) \<and> list_all isHexDigit ds \<and> length ds = 6 \<longrightarrow>
        validateAndNormalizeHex s = Some (CHR ''#'' # toUpperCase ds))
   \<and> ((trim s = [a, b, c] \<or> trim s = [CHR ''#'', a, b, c]) \<and> list_all isHexDigit [a, b, c] \<longrightarrow>
        validateAndNormalizeHex s = Some (CHR ''#'' # toUpperCase [a, a, b, b, c, c]))
   \<and> (propertyColor e p key = Some col) =
       (\<exists>fm v ds. getAbstractFileByPath e p = Some (TFile ''md'') \<and> frontmatter e p = Some fm
          \<and> fm key = Some v \<and> truthy v
          \<and> (trim (String_of v) = ds \<or> trim (String_of v) = CHR ''#'' # ds)
          \<and> length ds = 6 \<and> list_all isHexDigit ds \<and> col = CHR ''#'' # ds)"
proof -
  have six: "validateAndNormalizeHex s = Some (CHR ''#'' # toUpperCase ds)"
    if "(trim s = ds \<or> trim s = CHR ''#'' # ds) \<and> list_all isHexDigit ds \<and> length ds = 6"
    using that unfolding validateAndNormalizeHex_cases Let_def
    by (cases ds) (auto simp: hexN_def split: if_splits)
  have three: "validateAndNormalizeHex s = Some (CHR ''#'' # toUpperCase [a, a, b, b, c, c])"
    if "(trim s = [a, b, c] \<or> trim s = [CHR ''#'', a, b, c]) \<and> list_all isHexDigit [a, b, c]"
    using that unfolding validateAndNormalizeHex_cases Let_def
    by (auto simp: hexN_def split: if_splits)
  show ?thesis
    using validateAndNormalizeHex_accepts [of s] validateAndNormalizeHex_form [of s r]
      six three propertyColor_accepts [of e p key col]
    by blast
qed

theorem hex_normalization_witness:
  "validateAndNormalizeHex '' #a1B '' = Some ''#AA11BB''
   \<and> trim '' #a1B '' = [CHR ''#'', CHR ''a'', CHR ''1'', CHR ''B'']
   \<and> list_all isHexDigit [CHR ''a'', CHR ''1'', CHR ''B'']
   \<and> validateAndNormalizeHex ''c0ffee'' = Some ''#C0FFEE''
   \<and> length ''#AA11BB'' = 7
   \<and> propertyColor ex_env_colors ''notes/a.md'' ''spaced'' = Some ''#A1b2C3''"
proof -
  have t: "trim '' #a1B '' = [CHR ''#'', CHR ''a'', CHR ''1'', CHR ''B'']" by code_simp
  have h: "list_all isHexDigit [CHR ''a'', CHR ''1'', CHR ''B'']" by code_simp
  have u: "toUpperCase [CHR ''a'', CHR ''a'', CHR ''1'', CHR ''1'', CHR ''B'', CHR ''B''] = ''AA11BB''"
    by code_simp
  have v: "validateAndNormalizeHex ''c0ffee'' = Some ''#C0FFEE''" by code_simp
  have pc: "propertyColor ex_env_colors ''notes/a.md'' ''spaced'' = Some ''#A1b2C3''" by code_simp
  note T = hex_normalization [of "'' #a1B ''" "''#AA11BB''" "[]" "CHR ''a''" "CHR ''1''" "CHR ''B''"
      ex_env_colors "''notes/a.md''" "''spaced''" "''#A1b2C3''"]
  note T3 = T [THEN conjunct2, THEN conjunct2, THEN conjunct2, THEN conjunct1]
  have "validateAndNormalizeHex '' #a1B '' = Some ''#AA11BB''"
    using T3 t h u by simp
  with t h v pc show ?thesis by simp
qed

theorem hex_normalization_counterexample:
  "validateAndNormalizeHex '' fff'' = Some ''#FFFFFF''
   \<and> validateAndNormalizeHex ''abcdef'' = Some ''#ABCDEF''
   \<and> propertyColor ex_env_colors ''notes/a.md'' ''short'' = None
   \<and> propertyColor ex_env_colors ''notes/a.md'' ''lower'' = Some ''#abcdef''"
proof -
  have c1: "validateAndNormalizeHex '' fff'' = Some ''#FFFFFF''" by code_simp
  have c2: "validateAndNormalizeHex ''abcdef'' = Some ''#ABCDEF''" by code_simp
  have c3: "propertyColor ex_env_colors ''notes/a.md'' ''short'' = None" by code_simp
  have c4: "propertyColor ex_env_colors ''notes/a.md'' ''lower'' = Some ''#abcdef''" by code_simp
  from c1 c2 c3 c4 show ?thesis by (intro conjI)
qed

section \<open>Saving the palette\<close>

text \<open>
  Claim C9. When \<open>onSave\<close> stores the palette (it returns with an empty queue of
  errors), the stored palette is the edited one, the manual colours that remain are
  exactly those whose colour id is an id of the stored palette, and the groups are left as
  they were: each keeps its \<open>colorId\<close>, whether or not the palette still has that colour.
\<close>
theorem onSave_drops_manual_colors_keeps_groups:
  assumes "onSave st = Inr st'" and "colorErrorQueue st' = []"
  shows "palette (plugin_settings st') = palette_state st
     \<and> fileColors (plugin_settings st')
         = filter (\<lambda>fc. color fc \<in> set (map color_id (palette_state st)))
             (fileColors (plugin_settings st))
     \<and> groups (plugin_settings st') = groups (plugin_settings st)
     \<and> map colorId (groups (plugin_settings st')) = map colorId (groups (plugin_settings st))"
proof -
  have mem: "(List.find (\<lambda>c. color fc = color_id c) pal \<noteq> None)
               = (color fc \<in> set (map color_id pal))" for fc :: fileColor and pal
    by (auto simp: find_None_iff)
  have mem': "(\<exists>y. List.find (\<lambda>c. color fc = color_id c) pal = Some y)
               = (color fc \<in> set (map color_id pal))" for fc :: fileColor and pal
    using mem [of fc pal] by auto
  from assms show ?thesis
    by (auto simp: onSave_def Let_def mem mem' split: sum.splits list.splits)
qed

theorem onSave_drops_manual_colors_keeps_groups_witness:
  "onSave (ex_panel [\<lparr>color_id = ''c1'', color_name = ''Red'', color_value = ''#FF0000''\<rparr>])
     = Inr ((ex_panel [\<lparr>color_id = ''c1'', color_name = ''Red'', color_value = ''#FF0000''\<rparr>])
             \<lparr>plugin_settings :=
                (ex_settings [\<lparr>path = ''notes/a.md'', color = ''c1''\<rparr>]
                             [ex_group ''g1'' ''c2'' False 5 [cond_bg_exists]]),
              changed := False\<rparr>)
   \<and> colorErrorQueue ((ex_panel [\<lparr>color_id = ''c1'', color_name = ''Red'', color_value = ''#FF0000''\<rparr>])
             \<lparr>plugin_settings :=
                (ex_settings [\<lparr>path = ''notes/a.md'', color = ''c1''\<rparr>]
                             [ex_group ''g1'' ''c2'' False 5 [cond_bg_exists]]),
              changed := False\<rparr>) = []
   \<and> map colorId (groups (ex_settings [\<lparr>path = ''notes/a.md'', color = ''c1''\<rparr>]
                             [ex_group ''g1'' ''c2'' False 5 [cond_bg_exists]])) = [''c2'']"
proof -
  let ?pal = "[\<lparr>color_id = ''c1'', color_name = ''Red'', color_value = ''#FF0000''\<rparr>]"
  let ?st' = "(ex_panel ?pal)
             \<lparr>plugin_settings :=
                (ex_settings [\<lparr>path = ''notes/a.md'', color = ''c1''\<rparr>]
                             [ex_group ''g1'' ''c2'' False 5 [cond_bg_exists]]),
              changed := False\<rparr>"
  have h1: "onSave (ex_panel ?pal) = Inr ?st'" by code_simp
  have h2: "colorErrorQueue ?st' = []" by (simp add: ex_panel_def)
  note T = onSave_drops_manual_colors_keeps_groups [OF h1 h2]
  from T h1 h2 show ?thesis by (simp add: ex_settings_def ex_group_def)
qed

section \<open>Reordering the groups\<close>

lemma findIndex_first:
  assumes "i < length xs" and "P (xs ! i)" and "\<forall>j<i. \<not> P (xs ! j)"
  shows "findIndex P xs = int i"
proof -
  have split: "[0..<length xs] = [0..<i] @ i # [Suc i..<length xs]"
    using assms(1) by (metis le_add2 le_add_same_cancel2 upt_add_eq_append upt_conv_Cons less_imp_add_positive add.commute less_or_eq_imp_le)
  have "filter (\<lambda>j. P (xs ! j)) [0..<i] = []"
    using assms(3) by (simp add: filter_empty_conv)
  then show ?thesis
    unfolding findIndex_def by (subst split) (simp add: assms(2))
qed

lemma findIndex_distinct:
  assumes "distinct (map f xs)" and "i < length xs"
  shows "findIndex (\<lambda>x. f x = f (xs ! i)) xs = int i"
proof (rule findIndex_first [OF assms(2)])
  show "f (xs ! i) = f (xs ! i)" by simp
  show "\<forall>j<i. f (xs ! j) \<noteq> f (xs ! i)"
  proof (intro allI impI)
    fix j assume "j < i"
    then have "j < length (map f xs)" "i < length (map f xs)" "j \<noteq> i"
      using assms(2) by simp_all
    then have "map f xs ! j \<noteq> map f xs ! i"
      using assms(1) unfolding distinct_conv_nth by blast
    then show "f (xs ! j) \<noteq> f (xs ! i)"
      using assms(2) \<open>j < i\<close> by simp
  qed
qed

lemma distinct_ids_sortByPriority:
  "distinct (map group_id (sortByPriority gs)) = distinct (map group_id gs)"
proof -
  have "mset (map group_id (sortByPriority gs)) = mset (map group_id gs)"
    by (simp add: sortByPriority_def)
  then show ?thesis by (rule mset_eq_imp_distinct_iff)
qed

lemma same_id_same_group:
  assumes "distinct (map group_id gs)" and "g \<in> set gs" and "h \<in> set gs"
    and "group_id g = group_id h"
  shows "g = h"
  using assms by (meson distinct_map inj_onD)

text \<open>
  Claim C5, as the code has it. Let the ids of the groups be distinct and let a group
  stand at position \<open>i\<close> of the list sorted by descending priority. Moving it up gives
  it the priority of its predecessor plus one and gives the predecessor its old priority;
  moving it down gives it the priority of its successor minus one and gives the successor
  its old priority; every other group is unchanged. At the first position moving up, and
  at the last position moving down, changes nothing.
\<close>
theorem reorder_exchanges_with_neighbour:
  assumes "distinct (map group_id gs)" and "i < length gs"
    and "cur = sortByPriority gs ! i"
  shows "(i = 0 \<longrightarrow> onGroupMoveUp gs (group_id cur) = gs)
     \<and> (0 < i \<longrightarrow>
          onGroupMoveUp gs (group_id cur)
            = map (\<lambda>g. if g = cur then g\<lparr>priority := priority (sortByPriority gs ! (i - 1)) + 1\<rparr>
                       else if g = sortByPriority gs ! (i - 1) then g\<lparr>priority := priority cur\<rparr>
                       else g) gs)
     \<and> (i = length gs - 1 \<longrightarrow> onGroupMoveDown gs (group_id cur) = Inr gs)
     \<and> (i < length gs - 1 \<longrightarrow>
          onGroupMoveDown gs (group_id cur)
            = Inr (map (\<lambda>g. if g = cur then g\<lparr>priority := priority (sortByPriority gs ! (i + 1)) - 1\<rparr>
                            else if g = sortByPriority gs ! (i + 1) then g\<lparr>priority := priority cur\<rparr>
                            else g) gs))"
proof -
  let ?sorted = "sortByPriority gs"
  have len: "length ?sorted = length gs" by (simp add: sortByPriority_def)
  have dist: "distinct (map group_id ?sorted)"
    using assms(1) by (simp add: distinct_ids_sortByPriority)
  have idx: "findIndex (\<lambda>g. group_id g = group_id cur) ?sorted = int i"
    using findIndex_distinct [OF dist, of i] assms(2,3) len by simp
  have mem: "?sorted ! k \<in> set gs" if "k < length gs" for k
    using that len by (metis nth_mem set_sort sortByPriority_def)
  have same: "(group_id g = group_id (?sorted ! k)) = (g = ?sorted ! k)"
    if "g \<in> set gs" "k < length gs" for g k
    using same_id_same_group [OF assms(1) that(1) mem [OF that(2)]] by auto
  have up0: "onGroupMoveUp gs (group_id cur) = gs" if "i = 0"
    using that idx by (simp add: onGroupMoveUp_def Let_def)
  have up: "onGroupMoveUp gs (group_id cur)
            = map (\<lambda>g. if g = cur then g\<lparr>priority := priority (?sorted ! (i - 1)) + 1\<rparr>
                       else if g = ?sorted ! (i - 1) then g\<lparr>priority := priority cur\<rparr>
                       else g) gs" if "0 < i"
  proof -
    have n: "nat (int i - 1) = i - 1" using that by simp
    show ?thesis
      unfolding onGroupMoveUp_def Let_def idx
      using that assms(2,3) same [of _ i] same [of _ "i - 1"]
      by (auto simp: n intro!: map_cong)
  qed
  have dn0: "onGroupMoveDown gs (group_id cur) = Inr gs" if "i = length gs - 1"
  proof -
    have "\<not> int i < int (length ?sorted) - 1" using that assms(2) len by auto
    then show ?thesis unfolding onGroupMoveDown_def Let_def idx by simp
  qed
  have dn: "onGroupMoveDown gs (group_id cur)
            = Inr (map (\<lambda>g. if g = cur then g\<lparr>priority := priority (?sorted ! (i + 1)) - 1\<rparr>
                            else if g = ?sorted ! (i + 1) then g\<lparr>priority := priority cur\<rparr>
                            else g) gs)" if "i < length gs - 1"
  proof -
    have n: "nat (int i + 1) = i + 1" by simp
    have lt: "int i < int (length ?sorted) - 1" using that len by auto
    show ?thesis
      unfolding onGroupMoveDown_def Let_def idx
      using that assms(2,3) same [of _ i] same [of _ "i + 1"] lt
      by (auto simp: n intro!: map_cong)
  qed
  from up0 up dn0 dn show ?thesis by blast
qed

theorem reorder_exchanges_with_neighbour_witness:
  "distinct (map group_id [ex_group ''a'' ''c1'' False 5 [], ex_group ''b'' ''c1'' False 3 [],
                           ex_group ''c'' ''c1'' False 1 []])
   \<and> 1 < length [ex_group ''a'' ''c1'' False 5 [], ex_group ''b'' ''c1'' False 3 [],
                 ex_group ''c'' ''c1'' False 1 []]
   \<and> ex_group ''b'' ''c1'' False 3 []
       = sortByPriority [ex_group ''a'' ''c1'' False 5 [], ex_group ''b'' ''c1'' False 3 [],
                         ex_group ''c'' ''c1'' False 1 []] ! 1
   \<and> onGroupMoveUp [ex_group ''a'' ''c1'' False 5 [], ex_group ''b'' ''c1'' False 3 [],
                     ex_group ''c'' ''c1'' False 1 []] ''b''
       = [ex_group ''a'' ''c1'' False 3 [], ex_group ''b'' ''c1'' False 6 [],
          ex_group ''c'' ''c1'' False 1 []]
   \<and> onGroupMoveDown [ex_group ''a'' ''c1'' False 5 [], ex_group ''b'' ''c1'' False 3 [],
                       ex_group ''c'' ''c1'' False 1 []] ''b''
       = Inr [ex_group ''a'' ''c1'' False 5 [], ex_group ''b'' ''c1'' False 0 [],
              ex_group ''c'' ''c1'' False 3 []]"
proof -
  let ?gs = "[ex_group ''a'' ''c1'' False 5 [], ex_group ''b'' ''c1'' False 3 [],
              ex_group ''c'' ''c1'' False 1 []]"
  have srt: "sortByPriority ?gs = ?gs"
    by (simp add: sortByPriority_def ex_group_def)
  have h1: "distinct (map group_id ?gs)" by (simp add: ex_group_def)
  have h2: "1 < length ?gs" by simp
  have h3: "ex_group ''b'' ''c1'' False 3 [] = sortByPriority ?gs ! 1"
    unfolding srt by simp
  have gid: "group_id (ex_group ''b'' ''c1'' False 3 []) = ''b''" by (simp add: ex_group_def)
  note T = reorder_exchanges_with_neighbour [OF h1 h2 h3, unfolded gid srt]
  have up: "onGroupMoveUp ?gs ''b''
       = [ex_group ''a'' ''c1'' False 3 [], ex_group ''b'' ''c1'' False 6 [],
          ex_group ''c'' ''c1'' False 1 []]"
    using T [THEN conjunct2, THEN conjunct1] by (simp add: ex_group_def)
  have dn: "onGroupMoveDown ?gs ''b''
       = Inr [ex_group ''a'' ''c1'' False 5 [], ex_group ''b'' ''c1'' False 0 [],
              ex_group ''c'' ''c1'' False 3 []]"
    using T [THEN conjunct2, THEN conjunct2, THEN conjunct2] by (simp add: ex_group_def)
  from h1 h2 h3 up dn show ?thesis by (intro conjI)
qed

theorem reorder_is_not_a_swap_counterexample:
  "sortByPriority [ex_group ''a'' ''c1'' False 5 [], ex_group ''b'' ''c1'' False 3 []]
     = [ex_group ''a'' ''c1'' False 5 [], ex_group ''b'' ''c1'' False 3 []]
   \<and> onGroupMoveUp [ex_group ''a'' ''c1'' False 5 [], ex_group ''b'' ''c1'' False 3 []] ''b''
       = [ex_group ''a'' ''c1'' False 3 [], ex_group ''b'' ''c1'' False 6 []]
   \<and> onGroupMoveDown [ex_group ''a'' ''c1'' False 5 [], ex_group ''b'' ''c1'' False 3 []] ''a''
       = Inr [ex_group ''a'' ''c1'' False 2 [], ex_group ''b'' ''c1'' False 5 []]"
proof -
  let ?gs = "[ex_group ''a'' ''c1'' False 5 [], ex_group ''b'' ''c1'' False 3 []]"
  have c1: "sortByPriority ?gs = ?gs" by code_simp
  have c2: "onGroupMoveUp ?gs ''b''
       = [ex_group ''a'' ''c1'' False 3 [], ex_group ''b'' ''c1'' False 6 []]" by code_simp
  have c3: "onGroupMoveDown ?gs ''a''
       = Inr [ex_group ''a'' ''c1'' False 2 [], ex_group ''b'' ''c1'' False 5 []]" by code_simp
  from c1 c2 c3 show ?thesis by (intro conjI)
qed

lemma onGroupMoveDown_unknown_group_example:
  "onGroupMoveDown [ex_group ''a'' ''c1'' False 5 []] ''zz'' = Inl TypeError"
  by code_simp

section \<open>Validating the palette\<close>

lemma map_of_push:
  "map_of (map (\<lambda>(k, v). if k = name then (k, v @ [c]) else (k, v)) t) k =
     (if k = name then map_option (\<lambda>v. v @ [c]) (map_of t k) else map_of t k)"
  by (induction t) auto

lemma fst_push:
  "map fst (map (\<lambda>(k, v). if k = name then (k, v @ [c]) else (k, v)) t) = map fst t"
  by (induction t) auto

lemma tableOf_skip:
  "tableOf pre t \<Longrightarrow> normName c = [] \<Longrightarrow> tableOf (pre @ [c]) t"
  unfolding tableOf_def by auto

lemma tableOf_push:
  assumes "tableOf pre t" and "normName c = name" and "map_of t name = Some colors"
  shows "tableOf (pre @ [c]) (map (\<lambda>(k, v). if k = name then (k, v @ [c]) else (k, v)) t)"
proof -
  have ne: "name \<noteq> []" "name \<in> normName ` set pre"
    using assms unfolding tableOf_def by (metis option.distinct(1))+
  show ?thesis
    unfolding tableOf_def map_of_push fst_push
    using assms ne unfolding tableOf_def by auto
qed

lemma tableOf_new:
  assumes "tableOf pre t" and "normName c = name" and "name \<noteq> []" and "map_of t name = None"
  shows "tableOf (pre @ [c]) (t @ [(name, [c])])"
proof -
  have notin: "name \<notin> normName ` set pre"
    using assms unfolding tableOf_def by (metis option.distinct(1))
  have nk: "name \<notin> fst ` set t"
    using assms(4) by (simp add: map_of_eq_None_iff)
  have empty: "filter (\<lambda>ca. normName ca = name) pre = []"
    using notin by (auto simp: filter_empty_conv)
  show ?thesis
    unfolding tableOf_def
    using assms notin nk empty unfolding tableOf_def
    by (auto simp: map_add_def split: option.splits)
qed

lemma addNames_tableOf:
  assumes "\<forall>c \<in> set cs. normName c \<notin> set objectPrototypeKeys" and "tableOf pre t"
  shows "\<exists>t'. addNames cs t = Inr t' \<and> tableOf (pre @ cs) t'"
  using assms
proof (induction cs arbitrary: pre t)
  case Nil
  then show ?case by simp
next
  case (Cons c cs)
  let ?name = "normName c"
  have rest: "\<forall>c \<in> set cs. normName c \<notin> set objectPrototypeKeys" using Cons.prems(1) by simp
  have ok: "?name \<notin> set objectPrototypeKeys" using Cons.prems(1) by simp
  show ?case
  proof (cases "?name = []")
    case True
    from Cons.IH [OF rest tableOf_skip [OF Cons.prems(2) True]]
    show ?thesis using True by (simp add: normName_def)
  next
    case False
    show ?thesis
    proof (cases "map_of t ?name")
      case None
      from Cons.IH [OF rest tableOf_new [OF Cons.prems(2) refl False None]]
      show ?thesis using False None ok by (simp add: normName_def)
    next
      case (Some colors)
      from Cons.IH [OF rest tableOf_push [OF Cons.prems(2) refl Some]]
      show ?thesis using False Some by (simp add: normName_def)
    qed
  qed
qed

lemma tableOf_empty: "tableOf [] []"
  by (simp add: tableOf_def)

lemma set_entries: "set (entries t) = set t"
  by (auto simp: entries_def)

lemma hexErrors_reports:
  assumes "c \<in> set pal" and "\<not> hashHex6 (trim (color_value c))"
  shows "\<exists>err \<in> set (hexErrors pal). colorIds err = [color_id c] \<and> errorType err = ''invalid-hex''"
  using assms unfolding hexErrors_def Let_def
  by (auto intro!: bexI [of _ c])

lemma dupErrors_reports:
  assumes "(k, cs) \<in> set t" and "1 < length cs"
  shows "\<exists>err \<in> set (dupErrors t).
           colorIds err = map color_id cs \<and> errorType err = ''duplicate-name''"
proof -
  from assms(2) obtain c0 c1 rest where cs: "cs = c0 # c1 # rest"
    by (cases cs; cases "tl cs") auto
  have "(k, cs) \<in> set (entries t)" using assms(1) by (simp add: set_entries)
  then show ?thesis
    unfolding dupErrors_def cs
    by (auto intro!: bexI [of _ "(k, c0 # c1 # rest)"])
qed

lemma onSave_outcome:
  assumes "addNames (palette_state st) [] = Inr t"
  shows "\<exists>st'. onSave st = Inr st'
     \<and> colorErrorQueue st' = hexErrors (palette_state st) @ dupErrors t
     \<and> (colorErrorQueue st' \<noteq> [] \<longrightarrow>
          plugin_settings st' = plugin_settings st
          \<and> activeError st' = Some (hd (colorErrorQueue st')))"
  using assms by (auto simp: onSave_def Let_def split: list.splits)

lemma onSave_reports_every_conflict:
  assumes "\<forall>c \<in> set (palette_state st). normName c \<notin> set objectPrototypeKeys"
  shows "\<exists>st'. onSave st = Inr st'
     \<and> (\<forall>c \<in> set (palette_state st). \<not> hashHex6 (trim (color_value c)) \<longrightarrow>
          (\<exists>err \<in> set (colorErrorQueue st').
             colorIds err = [color_id c] \<and> errorType err = ''invalid-hex''))
     \<and> (\<forall>k. k \<noteq> [] \<and> 1 < length (filter (\<lambda>c. normName c = k) (palette_state st)) \<longrightarrow>
          (\<exists>err \<in> set (colorErrorQueue st').
             colorIds err = map color_id (filter (\<lambda>c. normName c = k) (palette_state st))
             \<and> errorType err = ''duplicate-name''))
     \<and> (colorErrorQueue st' \<noteq> [] \<longrightarrow>
          plugin_settings st' = plugin_settings st
          \<and> activeError st' = Some (hd (colorErrorQueue st')))"
proof -
  let ?pal = "palette_state st"
  from addNames_tableOf [OF assms tableOf_empty]
  obtain t where t: "addNames ?pal [] = Inr t" "tableOf ?pal t" by auto
  from onSave_outcome [OF t(1)]
  obtain st' where st': "onSave st = Inr st'"
      "colorErrorQueue st' = hexErrors ?pal @ dupErrors t"
      "colorErrorQueue st' \<noteq> [] \<longrightarrow>
          plugin_settings st' = plugin_settings st
          \<and> activeError st' = Some (hd (colorErrorQueue st'))"
    by blast
  have hex: "\<exists>err \<in> set (colorErrorQueue st').
             colorIds err = [color_id c] \<and> errorType err = ''invalid-hex''"
    if "c \<in> set ?pal" "\<not> hashHex6 (trim (color_value c))" for c
    using hexErrors_reports [OF that] st'(2) by auto
  have dup: "\<exists>err \<in> set (colorErrorQueue st').
             colorIds err = map color_id (filter (\<lambda>c. normName c = k) ?pal)
             \<and> errorType err = ''duplicate-name''"
    if "k \<noteq> []" "1 < length (filter (\<lambda>c. normName c = k) ?pal)" for k
  proof -
    from that(2) have "filter (\<lambda>c. normName c = k) ?pal \<noteq> []" by auto
    then have "k \<in> normName ` set ?pal" by (auto simp: filter_empty_conv)
    then have "map_of t k = Some (filter (\<lambda>c. normName c = k) ?pal)"
      using t(2) that(1) unfolding tableOf_def by simp
    then have "(k, filter (\<lambda>c. normName c = k) ?pal) \<in> set t" by (rule map_of_SomeD)
    from dupErrors_reports [OF this that(2)] show ?thesis using st'(2) by auto
  qed
  from st'(1) st'(3) hex dup show ?thesis by blast
qed

text \<open>
  Claim C8. \<open>onSave\<close> is to report every colour with an invalid value and every set of
  colours that share a name, and to reject the save when there is an error. It does so
  for every palette in which no colour is filed under the name of a property that all
  objects inherit (lemma \<open>onSave_reports_every_conflict\<close>). A colour named
  \<open>Constructor\<close> is filed under \<open>constructor\<close>: the table answers with the inherited
  property, the call of \<open>push\<close> throws, and the invalid value \<open>red\<close> of that colour is
  not reported, whereas it is reported for the same colour named \<open>Red\<close>.
\<close>
theorem onSave_throws_on_prototype_name:
  "hexErrors [\<lparr>color_id = ''c1'', color_name = ''Constructor'', color_value = ''red''\<rparr>]
     = [\<lparr>colorIds = [''c1''], message = ''Invalid hex color: red'', errorType = ''invalid-hex''\<rparr>]
   \<and> onSave (ex_panel [\<lparr>color_id = ''c1'', color_name = ''Constructor'', color_value = ''red''\<rparr>])
       = Inl TypeError
   \<and> onSave (ex_panel [\<lparr>color_id = ''c1'', color_name = ''Red'', color_value = ''red''\<rparr>])
       = Inr ((ex_panel [\<lparr>color_id = ''c1'', color_name = ''Red'', color_value = ''red''\<rparr>])
               \<lparr>colorErrorQueue :=
                  [\<lparr>colorIds = [''c1''], message = ''Invalid hex color: red'',
                    errorType = ''invalid-hex''\<rparr>],
                activeError :=
                  Some \<lparr>colorIds = [''c1''], message = ''Invalid hex color: red'',
                        errorType = ''invalid-hex''\<rparr>\<rparr>)"
proof -
  have c1: "hexErrors [\<lparr>color_id = ''c1'', color_name = ''Constructor'', color_value = ''red''\<rparr>]
     = [\<lparr>colorIds = [''c1''], message = ''Invalid hex color: red'', errorType = ''invalid-hex''\<rparr>]"
    by code_simp
  have c2: "onSave (ex_panel [\<lparr>color_id = ''c1'', color_name = ''Constructor'', color_value = ''red''\<rparr>])
       = Inl TypeError"
    by code_simp
  have c3: "onSave (ex_panel [\<lparr>color_id = ''c1'', color_name = ''Red'', color_value = ''red''\<rparr>])
       = Inr ((ex_panel [\<lparr>color_id = ''c1'', color_name = ''Red'', color_value = ''red''\<rparr>])
               \<lparr>colorErrorQueue :=
                  [\<lparr>colorIds = [''c1''], message = ''Invalid hex color: red'',
                    errorType = ''invalid-hex''\<rparr>],
                activeError :=
                  Some \<lparr>colorIds = [''c1''], message = ''Invalid hex color: red'',
                        errorType = ''invalid-hex''\<rparr>\<rparr>)"
    by code_simp
  from c1 c2 c3 show ?thesis by (intro conjI)
qed

lemma onSave_duplicate_names_example:
  "map_sum id colorErrorQueue
     (onSave (ex_panel [\<lparr>color_id = ''c1'', color_name = ''Red '', color_value = ''#FF0000''\<rparr>,
                        \<lparr>color_id = ''c2'', color_name = ''RED'', color_value = ''#EE0000''\<rparr>]))
     = Inr [\<lparr>colorIds = [''c1'', ''c2''],
             message = ''Duplicate color name '' @ [CHR 0x22] @ ''Red'' @ [CHR 0x22] @ '' (2 colors)'',
             errorType = ''duplicate-name''\<rparr>]"
  by code_simp

end
